theory Spec2Isabelle
  imports Main "HOL-Library.AList"
begin

section \<open>The room encryption orchestrator (src/matrix/e2ee/RoomEncryption.js)\<close>

text \<open>
  The class \<open>RoomEncryption\<close> coordinates collaborators that it receives in its
  constructor (storage, device tracker, olm and megolm engines, key backup, clock, room)
  and a logger. The embedding keeps the methods of the class as they are written and makes
  everything they do beyond computing a value explicit:

  \<^item> every call on a collaborator is an \<open>effect\<close> appended to a trace, in program order;
  \<^item> what a collaborator answers (a value, or a thrown error) is read from a record
    \<open>env\<close>, so a theorem that quantifies over \<open>env\<close> covers every behaviour of the
    collaborators;
  \<^item> the fields of the class that the methods read or write are a record \<open>state\<close>;
  \<^item> a thrown error is the left injection of the result, \<open>try/catch\<close> and
    \<open>try/finally\<close> are combinators;
  \<^item> an \<open>await\<close> is a suspension point: another task may call \<open>dispose()\<close> while the
    method is suspended there (\<open>disposeDuring env\<close> says at which calls).
\<close>

subsection \<open>Data\<close>

text \<open>A JavaScript error object: \<open>name\<close>, \<open>code\<close> (decryption errors), \<open>errcode\<close>
  (home server errors) and the message.\<close>

datatype js_error =
  JsError (err_name: string) (err_code: "string option") (err_errcode: "string option")
    (err_message: string)

text \<open>A timeline event, with the properties the class reads: \<open>event_id\<close>, whether
  \<open>redacted_because\<close> and \<open>unsigned.redacted_because\<close> are truthy, and the
  \<open>algorithm\<close>, \<open>sender_key\<close> and \<open>session_id\<close> of its content (each may be
  undefined, as may the content).\<close>

record event_content =
  algorithm :: "string option"
  sender_key :: "string option"
  session_id :: "string option"

record event =
  event_id :: string
  redacted_because :: bool
  unsigned_redacted_because :: bool
  content :: "event_content option"

record RoomKeyMessage =
  rkm_session_id :: string
  rkm_session_key :: string
  rkm_chain_index :: nat

text \<open>The durable operation built by \<open>_writeRoomKeyShareOperation\<close>; \<open>userIds\<close> is
  \<open>null\<close> (\<open>None\<close>) or an array of user ids.\<close>

record Operation =
  op_id :: string
  op_type :: string
  op_scope :: string
  op_userIds :: "string list option"
  op_roomKeyMessage :: RoomKeyMessage

record Device =
  userId :: string
  deviceId :: string

text \<open>A message of \<open>olmEncryption.encrypt\<close>: the device it is for and its content.\<close>

record OlmMessage =
  device :: Device
  msg_content :: string

record MemberChange =
  mc_userId :: string
  hasLeft :: bool
  hasJoined :: bool

text \<open>A record of the key backup, and the room key parsed from it.\<close>

record backup_session =
  bs_algorithm :: "string option"
  bs_sender_key :: "string option"
  bs_session_key :: string

record RoomKey =
  rk_senderKey :: string
  rk_sessionId :: string

datatype txn = Txn nat

datatype DecryptionSource = Sync | Timeline | Retry | OtherSource string

datatype session_cache = SyncCache | BackfillCache | CustomCache

datatype log_level = Warn | Error

datatype log_value =
  LStr string | LBool bool | LNum nat | LStrs "string list" | LSource DecryptionSource
  | LUndefined

text \<open>What is sent to a device: the content of an olm message, or a withheld notice
  (\<open>createWithheldMessage(roomKeyMessage, code, reason)\<close>).\<close>

datatype to_device_content = OlmContent string | WithheldMessage RoomKeyMessage string string

type_synonym payload = "(string \<times> (string \<times> to_device_content) list) list"

subsection \<open>Effects\<close>

text \<open>The calls on the log item, on the storage and its transactions, on the megolm
  engines and their session caches, and on the device tracker and the olm layer.\<close>

datatype log_call =
    LogSet string log_value
  | LogLog "(string \<times> log_value) list"
  | LogLevel log_level
  | LogError js_error
  | LogWrap string

datatype storage_call =
    ReadTxn "string list" txn
  | ReadWriteTxn "string list" txn
  | TxnAbort txn
  | TxnComplete txn
  | OperationsAdd txn Operation
  | OperationsUpdate txn Operation
  | OperationsRemove txn string
  | OperationsGetAllByTypeAndScope txn string string

datatype megolm_call =
    DiscardOutboundSession string txn
  | CreateRoomKeyMessage string txn
  | HasSession string "string option" "string option" txn
  | AddMissingKeyEventIds string "string option" "string option" "string list" txn
  | RoomKeyFromBackup string "string option" backup_session
  | WriteRoomKey RoomKey txn
  | RoomKeyDispose RoomKey
  | CreateSessionCache
  | SessionCacheDispose session_cache
  | PrepareDecryptAll string "event list" session_cache txn
  | PreparationDecrypt
  | ChangesWrite txn

datatype device_call =
    DeviceTrackerWriteMemberChanges "MemberChange list" txn
  | TrackRoom
  | DevicesForTrackedRoom string
  | DevicesForRoomMembers string "string list"
  | OlmEncrypt string RoomKeyMessage "Device list"

datatype effect =
    Log log_call
  | Storage storage_call
  | Megolm megolm_call
  | Devices device_call
  | SendToDevice string payload string
  | BackupGetSession string "string option"
  | NotifyRoomKey RoomKey "string list"
  | NotifyMissingMegolmSession
  | ClockCreateTimeout nat
  | Detached string "effect list"

subsection \<open>The collaborators\<close>

text \<open>The answers of the collaborators: \<open>Inl\<close> is a thrown error (a rejected promise),
  \<open>Inr\<close> the value returned. \<open>room_id\<close> is \<open>this._room.id\<close>,
  \<open>math_random_id\<close> the string \<open>Math.floor(Math.random() * Number.MAX_SAFE_INTEGER).toString()\<close>,
  \<open>makeTxnId\<close> the transaction id of a to-device request. The home server API, which
  the source passes as an argument \<open>hsApi\<close>, and the key backup client stand here
  too.\<close>

record env =
  room_id :: string
  storage_openTxn :: "txn \<Rightarrow> js_error + unit"
  txn_complete :: "txn \<Rightarrow> js_error + unit"
  operations_add :: "Operation \<Rightarrow> js_error + unit"
  operations_update :: "Operation \<Rightarrow> js_error + unit"
  operations_remove :: "string \<Rightarrow> js_error + unit"
  operations_getAllByTypeAndScope :: "js_error + Operation list"
  megolmEncryption_createRoomKeyMessage :: "js_error + RoomKeyMessage option"
  deviceTracker_writeMemberChanges :: "js_error + unit"
  deviceTracker_trackRoom :: "js_error + unit"
  deviceTracker_devicesForTrackedRoom :: "js_error + Device list"
  deviceTracker_devicesForRoomMembers :: "string list \<Rightarrow> js_error + Device list"
  olmEncryption_encrypt :: "RoomKeyMessage \<Rightarrow> Device list \<Rightarrow> js_error + OlmMessage list"
  hsApi_sendToDevice :: "string \<Rightarrow> payload \<Rightarrow> js_error + unit"
  sessionBackup_getSession :: "string option \<Rightarrow> js_error + backup_session option"
  megolmDecryption_hasSession :: "string option \<Rightarrow> string option \<Rightarrow> js_error + bool"
  megolmDecryption_addMissingKeyEventIds :: "string option \<Rightarrow> string option \<Rightarrow> js_error + unit"
  megolmDecryption_roomKeyFromBackup ::
    "string option \<Rightarrow> backup_session \<Rightarrow> js_error + RoomKey option"
  megolmDecryption_writeRoomKey :: "RoomKey \<Rightarrow> js_error + (bool \<times> string list option)"
  megolmDecryption_prepareDecryptAll :: "event list \<Rightarrow> js_error + unit"
  megolmDecryption_decrypt :: "event list \<Rightarrow> js_error + unit"
  megolmDecryption_write ::
    "event list \<Rightarrow> js_error + ((string \<rightharpoonup> string) \<times> (string \<rightharpoonup> js_error))"
  room_notifyRoomKey :: "RoomKey \<Rightarrow> js_error + unit"
  clock_timeout_elapsed :: "js_error + unit"
  math_random_id :: string
  makeTxnId :: string
  disposeDuring :: "effect \<Rightarrow> bool"

subsection \<open>The fields of the class and the actions on them\<close>

text \<open>\<open>sessionBackup\<close> says whether \<open>this._sessionBackup\<close> is set, \<open>txn_count\<close> counts
  the transactions the storage has opened and names the next one.\<close>

record state =
  sessionBackup :: bool
  isFlushingRoomKeyShares :: bool
  disposed :: bool
  txn_count :: nat

type_synonym 'a act = "state \<Rightarrow> effect list \<times> state \<times> (js_error + 'a)"

definition trace_of :: "effect list \<times> state \<times> (js_error + 'a) \<Rightarrow> effect list" where
  "trace_of r = fst r"

definition state_of :: "effect list \<times> state \<times> (js_error + 'a) \<Rightarrow> state" where
  "state_of r = fst (snd r)"

definition result_of :: "effect list \<times> state \<times> (js_error + 'a) \<Rightarrow> js_error + 'a" where
  "result_of r = snd (snd r)"

definition return :: "'a \<Rightarrow> 'a act" where
  "return x = (\<lambda>s. ([], s, Inr x))"

definition throw :: "js_error \<Rightarrow> 'a act" where
  "throw e = (\<lambda>s. ([], s, Inl e))"

definition bind :: "'a act \<Rightarrow> ('a \<Rightarrow> 'b act) \<Rightarrow> 'b act" where
  "bind m f = (\<lambda>s. case m s of
       (t, s', Inl e) \<Rightarrow> (t, s', Inl e)
     | (t, s', Inr x) \<Rightarrow> (case f x s' of (t', s'', r) \<Rightarrow> (t @ t', s'', r)))"

definition try_catch :: "'a act \<Rightarrow> (js_error \<Rightarrow> 'a act) \<Rightarrow> 'a act" where
  "try_catch m h = (\<lambda>s. case m s of
       (t, s', Inl e) \<Rightarrow> (case h e s' of (t', s'', r) \<Rightarrow> (t @ t', s'', r))
     | (t, s', Inr x) \<Rightarrow> (t, s', Inr x))"

definition try_finally :: "'a act \<Rightarrow> unit act \<Rightarrow> 'a act" where
  "try_finally m fin = (\<lambda>s. case m s of (t, s', r) \<Rightarrow>
       (case fin s' of
          (t', s'', Inl e) \<Rightarrow> (t @ t', s'', Inl e)
        | (t', s'', Inr u) \<Rightarrow> (t @ t', s'', r)))"

definition emit :: "effect \<Rightarrow> unit act" where
  "emit e = (\<lambda>s. ([e], s, Inr ()))"

definition get_field :: "(state \<Rightarrow> 'a) \<Rightarrow> 'a act" where
  "get_field f = (\<lambda>s. ([], s, Inr (f s)))"

definition modify :: "(state \<Rightarrow> state) \<Rightarrow> unit act" where
  "modify f = (\<lambda>s. ([], f s, Inr ()))"

text \<open>A synchronous call on a collaborator: the effect, then its answer.\<close>

definition call :: "effect \<Rightarrow> js_error + 'a \<Rightarrow> 'a act" where
  "call e r = (\<lambda>s. ([e], s, r))"

text \<open>\<open>dispose()\<close> of the source (lines 452-456).\<close>

definition dispose :: "unit act" where
  "dispose =
     bind (modify (\<lambda>s. s\<lparr>disposed := True\<rparr>)) (\<lambda>_.
     bind (emit (Megolm (SessionCacheDispose BackfillCache))) (\<lambda>_.
     emit (Megolm (SessionCacheDispose SyncCache))))"

text \<open>An awaited call: the effect, a suspension during which another task may run
  \<open>dispose()\<close> (its effects belong to that task's trace, its change of the fields is
  seen here), then the answer.\<close>

definition await :: "env \<Rightarrow> effect \<Rightarrow> js_error + 'a \<Rightarrow> 'a act" where
  "await env e r = (\<lambda>s. ([e], if disposeDuring env e then state_of (dispose s) else s, r))"

text \<open>\<open>log.wrap(label, callback)\<close>: a child log item, then the callback; what the
  callback throws is thrown on.\<close>

definition log_wrap :: "string \<Rightarrow> 'a act \<Rightarrow> 'a act" where
  "log_wrap label m = bind (emit (Log (LogWrap label))) (\<lambda>_. m)"

text \<open>\<open>log.wrapDetached(label, callback)\<close>: the callback runs as a task of its own.
  Its effects are kept apart, inside one \<open>Detached\<close> effect, and what it throws
  goes to the log and not to the caller.\<close>

definition log_wrapDetached :: "string \<Rightarrow> 'a act \<Rightarrow> unit act" where
  "log_wrapDetached label m = (\<lambda>s. case m s of (t, s', r) \<Rightarrow>
       ([Detached label t], s', Inr ()))"

text \<open>\<open>Promise.all(array.map(callback))\<close>: the callbacks run in the order of the array,
  all of them, and the promise rejects with the first error when one of them throws. The
  interleaving of the callbacks' continuations is not modelled.\<close>

fun promise_all :: "'a act list \<Rightarrow> 'a list act" where
  "promise_all [] = return []"
| "promise_all (m # ms) = (\<lambda>s. case m s of (t, s', r) \<Rightarrow>
       (case promise_all ms s' of (t', s'', rs) \<Rightarrow>
          (t @ t', s'',
           case r of Inl e \<Rightarrow> Inl e
           | Inr x \<Rightarrow> (case rs of Inl e \<Rightarrow> Inl e | Inr xs \<Rightarrow> Inr (x # xs)))))"

subsection \<open>Storage transactions\<close>

definition storage_readTxn :: "env \<Rightarrow> string list \<Rightarrow> txn act" where
  "storage_readTxn env storeNames =
     bind (get_field txn_count) (\<lambda>n.
     bind (modify (\<lambda>s. s\<lparr>txn_count := n + 1\<rparr>)) (\<lambda>_.
     bind (await env (Storage (ReadTxn storeNames (Txn n))) (storage_openTxn env (Txn n))) (\<lambda>_.
     return (Txn n))))"

definition storage_readWriteTxn :: "env \<Rightarrow> string list \<Rightarrow> txn act" where
  "storage_readWriteTxn env storeNames =
     bind (get_field txn_count) (\<lambda>n.
     bind (modify (\<lambda>s. s\<lparr>txn_count := n + 1\<rparr>)) (\<lambda>_.
     bind (await env (Storage (ReadWriteTxn storeNames (Txn n))) (storage_openTxn env (Txn n))) (\<lambda>_.
     return (Txn n))))"

subsection \<open>Membership changes (lines 84-99, 309-323, 348-359)\<close>

definition writeRoomKeyShareOperation ::
  "env \<Rightarrow> RoomKeyMessage \<Rightarrow> string list option \<Rightarrow> txn \<Rightarrow> Operation act" where
  "writeRoomKeyShareOperation env roomKeyMessage userIds txn =
     (let operation = \<lparr>op_id = math_random_id env, op_type = ''share_room_key'',
            op_scope = room_id env, op_userIds = userIds, op_roomKeyMessage = roomKeyMessage\<rparr>
      in bind (call (Storage (OperationsAdd txn operation)) (operations_add env operation)) (\<lambda>_.
         return operation))"

definition addShareRoomKeyOperationForNewMembers ::
  "env \<Rightarrow> MemberChange list \<Rightarrow> txn \<Rightarrow> bool act" where
  "addShareRoomKeyOperationForNewMembers env memberChangesArray txn =
     (let userIds = map mc_userId (filter hasJoined memberChangesArray) in
      bind (await env (Megolm (CreateRoomKeyMessage (room_id env) txn))
              (megolmEncryption_createRoomKeyMessage env)) (\<lambda>roomKeyMessage.
      case roomKeyMessage of
        Some rkm \<Rightarrow>
          bind (emit (Log (LogLog [(''l'', LStr ''share key for new members''),
                  (''userIds'', LStrs userIds), (''id'', LStr (rkm_session_id rkm)),
                  (''chain_index'', LNum (rkm_chain_index rkm))]))) (\<lambda>_.
          bind (writeRoomKeyShareOperation env rkm (Some userIds) txn) (\<lambda>_.
          return True))
      | None \<Rightarrow> return False))"

text \<open>\<open>memberChanges\<close> is a Map; the list is \<open>Array.from(memberChanges.values())\<close>.
  The result is \<open>None\<close> for \<open>undefined\<close>.\<close>

definition writeMemberChanges :: "env \<Rightarrow> MemberChange list \<Rightarrow> txn \<Rightarrow> bool option act" where
  "writeMemberChanges env memberChangesArray txn =
     bind (if list_ex hasLeft memberChangesArray then
             bind (emit (Log (LogLog [(''l'', LStr ''discardOutboundSession''),
                     (''leftUsers'', LStrs (map mc_userId (filter hasLeft memberChangesArray)))]))) (\<lambda>_.
             call (Megolm (DiscardOutboundSession (room_id env) txn)) (Inr ()))
           else return ()) (\<lambda>_.
     bind (if list_ex hasJoined memberChangesArray then
             bind (addShareRoomKeyOperationForNewMembers env memberChangesArray txn) (\<lambda>b.
             return (Some b))
           else return None) (\<lambda>shouldFlush.
     bind (await env (Devices (DeviceTrackerWriteMemberChanges memberChangesArray txn))
             (deviceTracker_writeMemberChanges env)) (\<lambda>_.
     return shouldFlush)))"

subsection \<open>Helpers imported from other files\<close>

text \<open>Modelled from the spec: the constant \<open>MEGOLM_ALGORITHM\<close> of e2ee/common.js,
  which is not among the sources; the spec calls it the expected group-encryption
  algorithm, and the Matrix identifier of Megolm stands for it.\<close>

definition MEGOLM_ALGORITHM :: string where
  "MEGOLM_ALGORITHM = ''m.megolm.v1.aes-sha2''"

definition ENCRYPTED_TYPE :: string where
  "ENCRYPTED_TYPE = ''m.room.encrypted''"

text \<open>Modelled from the spec: \<open>groupBy\<close> of utils/groupBy.js, which is not among the
  sources: a Map from each key to the items that have it, keys and items in the order of
  the array.\<close>

definition groupBy :: "'a list \<Rightarrow> ('a \<Rightarrow> 'k) \<Rightarrow> ('k \<times> 'a list) list" where
  "groupBy array groupFn =
     fold (\<lambda>x groups.
         AList.update (groupFn x)
           (case map_of groups (groupFn x) of None \<Rightarrow> [x] | Some xs \<Rightarrow> xs @ [x]) groups)
       array []"

definition ev_algorithm :: "event \<Rightarrow> string option" where
  "ev_algorithm e = (case content e of None \<Rightarrow> None | Some c \<Rightarrow> algorithm c)"

definition ev_sender_key :: "event \<Rightarrow> string option" where
  "ev_sender_key e = (case content e of None \<Rightarrow> None | Some c \<Rightarrow> sender_key c)"

definition ev_session_id :: "event \<Rightarrow> string option" where
  "ev_session_id e = (case content e of None \<Rightarrow> None | Some c \<Rightarrow> session_id c)"

text \<open>Modelled from the spec: \<open>groupEventsBySession\<close> of
  e2ee/megolm/decryption/utils.js, which is not among the sources: the events grouped by
  (sender key, session id). A group is its \<open>senderKey\<close>, its \<open>sessionId\<close> and its
  \<open>events\<close>.\<close>

definition groupEventsBySession ::
  "event list \<Rightarrow> ((string option \<times> string option) \<times> event list) list" where
  "groupEventsBySession events = groupBy events (\<lambda>e. (ev_sender_key e, ev_session_id e))"

text \<open>Modelled from the spec: \<open>mergeMap(src, dst)\<close> of utils/mergeMap.js, which is not
  among the sources: every entry of \<open>src\<close> is set in \<open>dst\<close>.\<close>

definition mergeMap :: "('k \<rightharpoonup> 'v) \<Rightarrow> ('k \<rightharpoonup> 'v) \<Rightarrow> ('k \<rightharpoonup> 'v)" where
  "mergeMap src dst = dst ++ src"

text \<open>A JavaScript Set as the list of its elements in insertion order.\<close>

definition set_add :: "'a list \<Rightarrow> 'a \<Rightarrow> 'a list" where
  "set_add xs x = (if x \<in> set xs then xs else xs @ [x])"

definition log_opt :: "string option \<Rightarrow> log_value" where
  "log_opt v = (case v of None \<Rightarrow> LUndefined | Some x \<Rightarrow> LStr x)"

definition js_string :: "string option \<Rightarrow> string" where
  "js_string v = (case v of None \<Rightarrow> ''undefined'' | Some x \<Rightarrow> x)"


subsection \<open>Sharing a room key (lines 294-307, 325-436)\<close>

definition updateOperationsStore :: "env \<Rightarrow> (txn \<Rightarrow> unit act) \<Rightarrow> unit act" where
  "updateOperationsStore env callback =
     bind (storage_readWriteTxn env [''operations'']) (\<lambda>writeTxn.
     bind (try_catch (callback writeTxn)
             (\<lambda>err. bind (call (Storage (TxnAbort writeTxn)) (Inr ())) (\<lambda>_. throw err))) (\<lambda>_.
     await env (Storage (TxnComplete writeTxn)) (txn_complete env writeTxn)))"

text \<open>The payloads of \<open>_sendSharedMessageToDevices\<close> and \<open>_sendMessagesToDevices\<close>:
  an object from user id to an object from device id to the content.\<close>

definition shared_payload :: "to_device_content \<Rightarrow> Device list \<Rightarrow> payload" where
  "shared_payload message devices =
     (let devicesByUser = groupBy devices userId
      in map (\<lambda>(user, devices).
             (user, fold (\<lambda>d deviceMap. AList.update (deviceId d) message deviceMap) devices []))
           devicesByUser)"

definition messages_payload :: "OlmMessage list \<Rightarrow> payload" where
  "messages_payload messages =
     (let messagesByUser = groupBy messages (\<lambda>message. userId (device message))
      in map (\<lambda>(user, messages).
             (user, fold (\<lambda>m deviceMap.
                  AList.update (deviceId (device m)) (OlmContent (msg_content m)) deviceMap)
                messages []))
           messagesByUser)"

definition sendSharedMessageToDevices ::
  "env \<Rightarrow> string \<Rightarrow> to_device_content \<Rightarrow> Device list \<Rightarrow> unit act" where
  "sendSharedMessageToDevices env type message devices =
     (let payload = shared_payload message devices
      in await env (SendToDevice type payload (makeTxnId env))
           (hsApi_sendToDevice env type payload))"

definition sendMessagesToDevices :: "env \<Rightarrow> string \<Rightarrow> OlmMessage list \<Rightarrow> unit act" where
  "sendMessagesToDevices env type messages =
     bind (emit (Log (LogSet ''messages'' (LNum (length messages))))) (\<lambda>_.
     let payload = messages_payload messages
     in await env (SendToDevice type payload (makeTxnId env))
          (hsApi_sendToDevice env type payload))"

text \<open>Three expressions of \<open>_processShareRoomKeyOperation\<close>: the user ids of the devices
  (\<open>Array.from(devices.reduce((set, device) => set.add(device.userId), new Set()))\<close>),
  the devices no message is for, and the user ids that own one of those.\<close>

definition resolve_userIds :: "Device list \<Rightarrow> string list" where
  "resolve_userIds devices = fold (\<lambda>device set. set_add set (userId device)) devices []"

definition missing_devices :: "Device list \<Rightarrow> OlmMessage list \<Rightarrow> Device list" where
  "missing_devices devices messages =
     filter (\<lambda>d. \<not> list_ex (\<lambda>m. device m = d) messages) devices"

definition unsent_userIds :: "string list \<Rightarrow> Device list \<Rightarrow> string list" where
  "unsent_userIds userIds missingDevices =
     filter (\<lambda>user. list_ex (\<lambda>d. userId d = user) missingDevices) userIds"

text \<open>\<open>m.device === d\<close> compares object identity; a device is identified here by its
  user id and device id. The operation object that the source mutates
  (\<open>operation.userIds = ...\<close>) is passed on as a new value, beside the array that
  \<open>operation.userIds\<close> holds from then on.\<close>

definition processShareRoomKeyOperation :: "env \<Rightarrow> Operation \<Rightarrow> unit act" where
  "processShareRoomKeyOperation env operation =
     bind (emit (Log (LogSet ''id'' (LStr (op_id operation))))) (\<lambda>_.
     bind (await env (Devices TrackRoom) (deviceTracker_trackRoom env)) (\<lambda>_.
     bind (case op_userIds operation of
             None \<Rightarrow>
               bind (await env (Devices (DevicesForTrackedRoom (room_id env)))
                       (deviceTracker_devicesForTrackedRoom env)) (\<lambda>devices.
               let userIds = resolve_userIds devices;
                   operation = operation\<lparr>op_userIds := Some userIds\<rparr>
               in bind (updateOperationsStore env (\<lambda>t.
                          call (Storage (OperationsUpdate t operation))
                            (operations_update env operation))) (\<lambda>_.
                  return (devices, operation, userIds)))
           | Some userIds \<Rightarrow>
               bind (await env (Devices (DevicesForRoomMembers (room_id env) userIds))
                       (deviceTracker_devicesForRoomMembers env userIds)) (\<lambda>devices.
               return (devices, operation, userIds))) (\<lambda>(devices, operation, userIds).
     bind (log_wrap ''olm encrypt''
             (await env (Devices (OlmEncrypt ''m.room_key'' (op_roomKeyMessage operation) devices))
                (olmEncryption_encrypt env (op_roomKeyMessage operation) devices))) (\<lambda>messages.
     let missingDevices = missing_devices devices messages in
     bind (log_wrap ''send'' (sendMessagesToDevices env ENCRYPTED_TYPE messages)) (\<lambda>_.
     bind (if missingDevices \<noteq> [] then
             log_wrap ''missingDevices''
               (bind (emit (Log (LogSet ''devices'' (LStrs (map deviceId missingDevices))))) (\<lambda>_.
                let unsentUserIds = unsent_userIds userIds missingDevices;
                    operation = operation\<lparr>op_userIds := Some unsentUserIds\<rparr>
                in bind (emit (Log (LogSet ''unsentUserIds'' (LStrs unsentUserIds)))) (\<lambda>_.
                   bind (updateOperationsStore env (\<lambda>t.
                           call (Storage (OperationsUpdate t operation))
                             (operations_update env operation))) (\<lambda>_.
                   let withheldMessage =
                         WithheldMessage (op_roomKeyMessage operation) ''m.no_olm'' ''OTKs exhausted''
                   in sendSharedMessageToDevices env ''org.matrix.room_key.withheld''
                        withheldMessage missingDevices))))
           else return ()) (\<lambda>_.
     updateOperationsStore env (\<lambda>t.
       call (Storage (OperationsRemove t (op_id operation)))
         (operations_remove env (op_id operation)))))))))"

definition shareNewRoomKey :: "env \<Rightarrow> RoomKeyMessage \<Rightarrow> unit act" where
  "shareNewRoomKey env roomKeyMessage =
     bind (storage_readWriteTxn env [''operations'']) (\<lambda>writeOpTxn.
     bind (try_catch (writeRoomKeyShareOperation env roomKeyMessage None writeOpTxn)
             (\<lambda>err. bind (call (Storage (TxnAbort writeOpTxn)) (Inr ())) (\<lambda>_. throw err)))
       (\<lambda>operation.
     processShareRoomKeyOperation env operation))"




subsection \<open>Recovering a session from the key backup (lines 197-251)\<close>

text \<open>\<open>senderKey\<close> and \<open>sessionId\<close> come from the content of an event and may be
  undefined. \<open>writeRoomKey\<close> answers whether the key is the best one, and the
  \<open>eventIds\<close> the room key holds after the call.\<close>

text \<open>The body of the \<open>try\<close> block once the session is fetched (lines 208-242).\<close>

definition importBackupSession ::
  "env \<Rightarrow> string option \<Rightarrow> string option \<Rightarrow> backup_session option \<Rightarrow> unit act" where
  "importBackupSession env senderKey sessionId session =
     (case session of
        None \<Rightarrow> return ()
      | Some session \<Rightarrow>
          if bs_algorithm session = Some MEGOLM_ALGORITHM then
            if bs_sender_key session \<noteq> senderKey then
              bind (emit (Log (LogSet ''wrong_sender_key'' (log_opt (bs_sender_key session))))) (\<lambda>_.
              emit (Log (LogLevel Warn)))
            else
              bind (call (Megolm (RoomKeyFromBackup (room_id env) sessionId session))
                      (megolmDecryption_roomKeyFromBackup env sessionId session)) (\<lambda>roomKey.
              case roomKey of
                None \<Rightarrow> return ()
              | Some roomKey \<Rightarrow>
                  bind (try_finally
                          (bind (storage_readWriteTxn env [''inboundGroupSessions'']) (\<lambda>t.
                           bind (try_catch
                                   (bind (await env (Megolm (WriteRoomKey roomKey t))
                                            (megolmDecryption_writeRoomKey env roomKey))
                                      (\<lambda>(keyIsBestOne, eventIds).
                                    bind (emit (Log (LogSet ''isBetter'' (LBool keyIsBestOne)))) (\<lambda>_.
                                    return (keyIsBestOne,
                                      if keyIsBestOne then eventIds else None))))
                                   (\<lambda>err. bind (call (Storage (TxnAbort t)) (Inr ())) (\<lambda>_.
                                          throw err))) (\<lambda>r.
                           bind (await env (Storage (TxnComplete t)) (txn_complete env t)) (\<lambda>_.
                           return r))))
                          (call (Megolm (RoomKeyDispose roomKey)) (Inr ())))
                    (\<lambda>(keyIsBestOne, retryEventIds).
                  if keyIsBestOne then
                    log_wrap ''retryDecryption''
                      (await env
                         (NotifyRoomKey roomKey
                            (case retryEventIds of None \<Rightarrow> [] | Some ids \<Rightarrow> ids))
                         (room_notifyRoomKey env roomKey))
                  else return ()))
          else if (case bs_algorithm session of None \<Rightarrow> False | Some a \<Rightarrow> a \<noteq> []) then
            emit (Log (LogSet ''unknown algorithm'' (log_opt (bs_algorithm session))))
          else return ())"

definition requestMissingSessionFromBackup ::
  "env \<Rightarrow> string option \<Rightarrow> string option \<Rightarrow> unit act" where
  "requestMissingSessionFromBackup env senderKey sessionId =
     bind (get_field sessionBackup) (\<lambda>backup.
     if \<not> backup then
       bind (emit (Log (LogSet ''enabled'' (LBool False)))) (\<lambda>_.
       emit NotifyMissingMegolmSession)
     else
       bind (emit (Log (LogSet ''id'' (log_opt sessionId)))) (\<lambda>_.
       bind (emit (Log (LogSet ''senderKey'' (log_opt senderKey)))) (\<lambda>_.
       try_catch
         (bind (await env (BackupGetSession (room_id env) sessionId)
                  (sessionBackup_getSession env sessionId))
            (importBackupSession env senderKey sessionId))
         (\<lambda>err.
            if \<not> (err_name err = ''HomeServerError'' \<and> err_errcode err = Some ''M_NOT_FOUND'') then
              emit (Log (LogSet ''not_found'' (LBool True)))
            else
              bind (emit (Log (LogError err))) (\<lambda>_.
              emit (Log (LogLevel Error)))))))"

subsection \<open>Decrypting a batch of events (lines 101-182, 463-501)\<close>

text \<open>The body of the loop of \<open>prepareDecryptAll\<close>, on the pair of \<open>errors\<close> and
  \<open>validEvents\<close>.\<close>

definition prepare_step ::
  "event \<Rightarrow> (string \<rightharpoonup> js_error) \<times> event list \<Rightarrow> (string \<rightharpoonup> js_error) \<times> event list" where
  "prepare_step e acc =
     (case acc of (errors, validEvents) \<Rightarrow>
        if redacted_because e \<or> unsigned_redacted_because e then (errors, validEvents)
        else
          (if ev_algorithm e \<noteq> Some MEGOLM_ALGORITHM
           then errors(event_id e \<mapsto>
                  JsError ''Error'' None None
                    (''Unsupported algorithm: '' @ js_string (ev_algorithm e)))
           else errors,
           validEvents @ [e]))"

text \<open>A \<open>DecryptionPreparation\<close> and a \<open>DecryptionChanges\<close> hold the same fields; the
  object of the megolm engine is stood for by the events the engine was given.\<close>

record DecryptionPreparation =
  megolmDecryptionPreparation :: "event list"
  extraErrors :: "string \<rightharpoonup> js_error"
  prep_source :: DecryptionSource
  prep_events :: "event list"

record BatchDecryptionResult =
  results_map :: "string \<rightharpoonup> string"
  errors_map :: "string \<rightharpoonup> js_error"

text \<open>The argument \<open>newKeys\<close> is handed to the engine unread and is left out.\<close>

definition prepareDecryptAll ::
  "env \<Rightarrow> event list \<Rightarrow> DecryptionSource \<Rightarrow> txn \<Rightarrow> DecryptionPreparation act" where
  "prepareDecryptAll env events source t =
     (case fold prepare_step events (Map.empty, []) of (errors, validEvents) \<Rightarrow>
      bind (case source of
              Sync \<Rightarrow> return SyncCache
            | Timeline \<Rightarrow> return BackfillCache
            | Retry \<Rightarrow> bind (call (Megolm CreateSessionCache) (Inr ())) (\<lambda>_. return CustomCache)
            | OtherSource x \<Rightarrow> throw (JsError ''Error'' None None (''Unknown source: '' @ x)))
        (\<lambda>sessionCache.
      bind (await env (Megolm (PrepareDecryptAll (room_id env) validEvents sessionCache t))
              (megolmDecryption_prepareDecryptAll env validEvents)) (\<lambda>_.
      bind (if sessionCache = CustomCache
            then call (Megolm (SessionCacheDispose CustomCache)) (Inr ())
            else return ()) (\<lambda>_.
      return \<lparr>megolmDecryptionPreparation = validEvents, extraErrors = errors,
                prep_source = source, prep_events = events\<rparr>))))"

definition decrypt :: "env \<Rightarrow> DecryptionPreparation \<Rightarrow> DecryptionPreparation act" where
  "decrypt env preparation =
     bind (await env (Megolm PreparationDecrypt)
             (megolmDecryption_decrypt env (megolmDecryptionPreparation preparation))) (\<lambda>_.
     return preparation)"

text \<open>The detached task "check key backup" of \<open>_processDecryptionResults\<close> (lines
  159-181).\<close>

definition checkKeyBackup ::
  "env \<Rightarrow> DecryptionSource \<Rightarrow> event list \<Rightarrow>
     ((string option \<times> string option) \<times> event list) list \<Rightarrow> unit act" where
  "checkKeyBackup env source missingSessionEvents missingEventsBySession =
     bind (emit (Log (LogSet ''source'' (LSource source)))) (\<lambda>_.
     bind (emit (Log (LogSet ''events'' (LNum (length missingSessionEvents))))) (\<lambda>_.
     bind (emit (Log (LogSet ''sessions'' (LNum (length missingEventsBySession))))) (\<lambda>_.
     bind (if source = Sync then
             bind (await env (ClockCreateTimeout 10000) (clock_timeout_elapsed env)) (\<lambda>_.
             bind (get_field disposed) (\<lambda>d.
             if d then return None
             else
               bind (storage_readTxn env [''inboundGroupSessions'']) (\<lambda>t.
               bind (promise_all (map (\<lambda>(key, events).
                       await env (Megolm (HasSession (room_id env) (fst key) (snd key) t))
                         (megolmDecryption_hasSession env (fst key) (snd key)))
                     missingEventsBySession)) (\<lambda>received.
               return (Some (map fst (filter (\<lambda>(group, has). \<not> has)
                                (zip missingEventsBySession received))))))))
           else return (Some missingEventsBySession)) (\<lambda>remaining.
     case remaining of
       None \<Rightarrow> return ()
     | Some groups \<Rightarrow>
         bind (promise_all (map (\<lambda>(key, events).
                 log_wrap ''session'' (requestMissingSessionFromBackup env (fst key) (snd key)))
               groups)) (\<lambda>_.
         return ())))))"

text \<open>\<open>missingSessionEvents\<close> of \<open>_processDecryptionResults\<close>: the events whose error
  has the code \<open>MEGOLM_NO_SESSION\<close>.\<close>

definition missing_session_events :: "(string \<rightharpoonup> js_error) \<Rightarrow> event list \<Rightarrow> event list" where
  "missing_session_events errors events =
     filter (\<lambda>event. case errors (event_id event) of
                        None \<Rightarrow> False
                      | Some error \<Rightarrow> err_code error = Some ''MEGOLM_NO_SESSION'') events"

definition processDecryptionResults ::
  "env \<Rightarrow> event list \<Rightarrow> (string \<rightharpoonup> js_error) \<Rightarrow> DecryptionSource \<Rightarrow> txn \<Rightarrow> unit act" where
  "processDecryptionResults env events errors source t =
     (let missingSessionEvents = missing_session_events errors events
      in if missingSessionEvents = [] then return ()
         else
           let missingEventsBySession = groupEventsBySession missingSessionEvents in
           bind (if source = Sync then
                   bind (promise_all (map (\<lambda>(key, events).
                           await env
                             (Megolm (AddMissingKeyEventIds (room_id env) (fst key) (snd key)
                                (map event_id events) t))
                             (megolmDecryption_addMissingKeyEventIds env (fst key) (snd key)))
                         missingEventsBySession)) (\<lambda>_. return ())
                 else return ()) (\<lambda>_.
           bind (get_field sessionBackup) (\<lambda>backup.
           if \<not> backup then return ()
           else log_wrapDetached ''check key backup''
                  (checkKeyBackup env source missingSessionEvents missingEventsBySession))))"

text \<open>\<open>DecryptionChanges.write(txn, log)\<close>.\<close>

definition DecryptionChanges_write ::
  "env \<Rightarrow> DecryptionPreparation \<Rightarrow> txn \<Rightarrow> BatchDecryptionResult act" where
  "DecryptionChanges_write env changes t =
     bind (await env (Megolm (ChangesWrite t))
             (megolmDecryption_write env (megolmDecryptionPreparation changes)))
       (\<lambda>(results, errors).
     let errors = mergeMap (extraErrors changes) errors in
     bind (processDecryptionResults env (prep_events changes) errors (prep_source changes) t) (\<lambda>_.
     return \<lparr>results_map = results, errors_map = errors\<rparr>))"

subsection \<open>Kinds of effects\<close>

fun is_OperationsAdd :: "effect \<Rightarrow> bool" where
  "is_OperationsAdd (Storage (OperationsAdd t operation)) = True"
| "is_OperationsAdd e = False"


fun is_WriteRoomKey :: "effect \<Rightarrow> bool" where
  "is_WriteRoomKey (Megolm (WriteRoomKey k t)) = True"
| "is_WriteRoomKey e = False"

fun is_NotifyRoomKey :: "effect \<Rightarrow> bool" where
  "is_NotifyRoomKey (NotifyRoomKey k ids) = True"
| "is_NotifyRoomKey e = False"

fun is_ReadWriteTxn :: "effect \<Rightarrow> bool" where
  "is_ReadWriteTxn (Storage (ReadWriteTxn names t)) = True"
| "is_ReadWriteTxn e = False"

fun is_SendToDevice :: "effect \<Rightarrow> bool" where
  "is_SendToDevice (SendToDevice type p i) = True"
| "is_SendToDevice e = False"

fun is_BackupGetSession :: "effect \<Rightarrow> bool" where
  "is_BackupGetSession (BackupGetSession r i) = True"
| "is_BackupGetSession e = False"

fun is_ClockCreateTimeout :: "effect \<Rightarrow> bool" where
  "is_ClockCreateTimeout (ClockCreateTimeout ms) = True"
| "is_ClockCreateTimeout e = False"

fun is_Storage :: "effect \<Rightarrow> bool" where
  "is_Storage (Storage c) = True"
| "is_Storage e = False"

fun is_Detached :: "effect \<Rightarrow> bool" where
  "is_Detached (Detached label t) = True"
| "is_Detached e = False"

text \<open>The entries of a payload: user id, device id and content.\<close>

definition payload_entries :: "payload \<Rightarrow> (string \<times> string \<times> to_device_content) list" where
  "payload_entries p =
     concat (map (\<lambda>(user, deviceMap). map (\<lambda>(dev, c). (user, dev, c)) deviceMap) p)"

text \<open>\<open>all_preceded p q t\<close>: in the trace \<open>t\<close>, every effect that satisfies \<open>q\<close> comes
  after an effect that satisfies \<open>p\<close>.\<close>

fun all_preceded :: "('a \<Rightarrow> bool) \<Rightarrow> ('a \<Rightarrow> bool) \<Rightarrow> 'a list \<Rightarrow> bool" where
  "all_preceded p q [] = True"
| "all_preceded p q (x # xs) = (if q x then False else if p x then True else all_preceded p q xs)"

subsection \<open>Predicates on actions and collaborators\<close>

text \<open>An action that leaves \<open>sessionBackup\<close> and \<open>isFlushingRoomKeyShares\<close> as they
  are.\<close>

definition keeps :: "'a act \<Rightarrow> bool" where
  "keeps m = (\<forall>s. sessionBackup (state_of (m s)) = sessionBackup s
      \<and> isFlushingRoomKeyShares (state_of (m s)) = isFlushingRoomKeyShares s)"

text \<open>An action whose trace has no effect that satisfies \<open>P\<close>.\<close>

definition never :: "(effect \<Rightarrow> bool) \<Rightarrow> 'a act \<Rightarrow> bool" where
  "never P m = (\<forall>s. filter P (trace_of (m s)) = [])"

text \<open>The storage answers every call on a transaction of the operations store; the
  device tracker and the home server answer.\<close>

definition storage_succeeds :: "env \<Rightarrow> bool" where
  "storage_succeeds env =
     ((\<forall>h. storage_openTxn env h = Inr ()) \<and> (\<forall>h. txn_complete env h = Inr ())
      \<and> (\<forall>operation. operations_update env operation = Inr ())
      \<and> (\<forall>i. operations_remove env i = Inr ()))"

definition network_succeeds :: "env \<Rightarrow> bool" where
  "network_succeeds env =
     (deviceTracker_trackRoom env = Inr ()
      \<and> (\<forall>type p. hsApi_sendToDevice env type p = Inr ()))"

subsection \<open>Example values\<close>

definition rkm0 :: RoomKeyMessage where
  "rkm0 = \<lparr>rkm_session_id = ''sess1'', rkm_session_key = ''key1'', rkm_chain_index = 0\<rparr>"

definition alice_phone :: Device where
  "alice_phone = \<lparr>userId = ''@alice:hs'', deviceId = ''APHONE''\<rparr>"

definition bob_laptop :: Device where
  "bob_laptop = \<lparr>userId = ''@bob:hs'', deviceId = ''BLAPTOP''\<rparr>"

definition carol_joins :: MemberChange where
  "carol_joins = \<lparr>mc_userId = ''@carol:hs'', hasLeft = False, hasJoined = True\<rparr>"

definition dave_leaves :: MemberChange where
  "dave_leaves = \<lparr>mc_userId = ''@dave:hs'', hasLeft = True, hasJoined = False\<rparr>"

text \<open>Collaborators that answer every call: the room has the devices of Alice and Bob,
  the olm layer encrypts for every device, an outbound session exists, the backup has no
  session, and nobody calls \<open>dispose()\<close>.\<close>

definition env0 :: env where
  "env0 = \<lparr>room_id = ''!room:hs'',
     storage_openTxn = (\<lambda>h. Inr ()),
     txn_complete = (\<lambda>h. Inr ()),
     operations_add = (\<lambda>operation. Inr ()),
     operations_update = (\<lambda>operation. Inr ()),
     operations_remove = (\<lambda>i. Inr ()),
     operations_getAllByTypeAndScope = Inr [],
     megolmEncryption_createRoomKeyMessage = Inr (Some rkm0),
     deviceTracker_writeMemberChanges = Inr (),
     deviceTracker_trackRoom = Inr (),
     deviceTracker_devicesForTrackedRoom = Inr [alice_phone, bob_laptop],
     deviceTracker_devicesForRoomMembers =
       (\<lambda>userIds. Inr (filter (\<lambda>d. userId d \<in> set userIds) [alice_phone, bob_laptop])),
     olmEncryption_encrypt =
       (\<lambda>roomKeyMessage devices. Inr (map (\<lambda>d. \<lparr>device = d, msg_content = ''olm''\<rparr>) devices)),
     hsApi_sendToDevice = (\<lambda>type payload. Inr ()),
     sessionBackup_getSession = (\<lambda>sessionId. Inr None),
     megolmDecryption_hasSession = (\<lambda>senderKey sessionId. Inr False),
     megolmDecryption_addMissingKeyEventIds = (\<lambda>senderKey sessionId. Inr ()),
     megolmDecryption_roomKeyFromBackup = (\<lambda>sessionId session. Inr None),
     megolmDecryption_writeRoomKey = (\<lambda>roomKey. Inr (True, None)),
     megolmDecryption_prepareDecryptAll = (\<lambda>events. Inr ()),
     megolmDecryption_decrypt = (\<lambda>events. Inr ()),
     megolmDecryption_write = (\<lambda>events. Inr (Map.empty, Map.empty)),
     room_notifyRoomKey = (\<lambda>roomKey. Inr ()),
     clock_timeout_elapsed = Inr (),
     math_random_id = ''4242'',
     makeTxnId = ''t1'',
     disposeDuring = (\<lambda>e. False)\<rparr>"

definition s0 :: state where
  "s0 = \<lparr>sessionBackup = False, isFlushingRoomKeyShares = False, disposed = False,
     txn_count = 0\<rparr>"

text \<open>The same fields with a key backup enabled.\<close>

definition s1 :: state where
  "s1 = s0\<lparr>sessionBackup := True\<rparr>"

definition not_found_error :: js_error where
  "not_found_error = JsError ''HomeServerError'' None (Some ''M_NOT_FOUND'') ''No backup found''"

definition connection_error :: js_error where
  "connection_error = JsError ''ConnectionError'' None None ''offline''"

text \<open>Two records of the backup whose sender key is not the expected \<open>KEY\<close>.\<close>

definition wrong_sender_session :: backup_session where
  "wrong_sender_session = \<lparr>bs_algorithm = Some ''m.megolm.v1.aes-sha2'',
     bs_sender_key = Some ''EVIL'', bs_session_key = ''k''\<rparr>"

definition other_algorithm_session :: backup_session where
  "other_algorithm_session = \<lparr>bs_algorithm = Some ''m.other.v1'',
     bs_sender_key = Some ''EVIL'', bs_session_key = ''k''\<rparr>"

text \<open>An event of a room encrypted with another algorithm, the error the source builds
  for it, and an engine that decrypts every event it is handed.\<close>

definition olm_event :: event where
  "olm_event = \<lparr>event_id = ''$olm'', redacted_because = False,
     unsigned_redacted_because = False,
     content = Some \<lparr>algorithm = Some ''m.olm.v1.curve25519-aes-sha2'',
       sender_key = Some ''KEY'', session_id = Some ''sess1''\<rparr>\<rparr>"

definition unsupported_error :: js_error where
  "unsupported_error =
     JsError ''Error'' None None ''Unsupported algorithm: m.olm.v1.curve25519-aes-sha2''"

definition decrypts_all ::
  "event list \<Rightarrow> js_error + ((string \<rightharpoonup> string) \<times> (string \<rightharpoonup> js_error))" where
  "decrypts_all events =
     Inr (map_of (map (\<lambda>e. (event_id e, ''plaintext'')) events), Map.empty)"



text \<open>An operation for everybody in the room, and an olm layer that has no message for
  the device of Bob.\<close>

definition op_null :: Operation where
  "op_null = \<lparr>op_id = ''3'', op_type = ''share_room_key'', op_scope = ''!room:hs'',
     op_userIds = None, op_roomKeyMessage = rkm0\<rparr>"

definition env_bob_missing :: env where
  "env_bob_missing = env0\<lparr>olmEncryption_encrypt :=
     (\<lambda>roomKeyMessage devices.
        Inr (map (\<lambda>d. \<lparr>device = d, msg_content = ''olm''\<rparr>)
               (filter (\<lambda>d. userId d = ''@alice:hs'') devices)))\<rparr>"

text \<open>A Megolm event, the error of the engine for an unknown session, and an engine that
  answers with that error for the event.\<close>

definition megolm_event :: event where
  "megolm_event = \<lparr>event_id = ''$m1'', redacted_because = False,
     unsigned_redacted_because = False,
     content = Some \<lparr>algorithm = Some ''m.megolm.v1.aes-sha2'',
       sender_key = Some ''KEY'', session_id = Some ''sess1''\<rparr>\<rparr>"

definition no_session_error :: js_error where
  "no_session_error = JsError ''DecryptionError'' (Some ''MEGOLM_NO_SESSION'') None ''no session''"

definition env_no_session :: env where
  "env_no_session = env0\<lparr>megolmDecryption_write :=
     (\<lambda>events. Inr (Map.empty, [''$m1'' \<mapsto> no_session_error]))\<rparr>"

definition changes_m1 :: DecryptionPreparation where
  "changes_m1 = \<lparr>megolmDecryptionPreparation = [megolm_event], extraErrors = Map.empty,
     prep_source = Sync, prep_events = [megolm_event]\<rparr>"

section \<open>Properties\<close>

subsection \<open>The actions\<close>

lemma await_eq:
  "await env e r s = ([e], s\<lparr>disposed := disposed s \<or> disposeDuring env e\<rparr>, r)"
  by (simp add: await_def dispose_def bind_def modify_def emit_def state_of_def)

lemmas act_defs = return_def throw_def bind_def try_catch_def try_finally_def emit_def
  get_field_def modify_def call_def await_eq log_wrap_def trace_of_def state_of_def
  result_of_def

lemmas request_defs = requestMissingSessionFromBackup_def importBackupSession_def

lemmas member_defs = writeMemberChanges_def addShareRoomKeyOperationForNewMembers_def
  writeRoomKeyShareOperation_def


lemma keeps_return: "keeps (return x)" by (simp add: keeps_def act_defs)
lemma keeps_throw: "keeps (throw e)" by (simp add: keeps_def act_defs)
lemma keeps_emit: "keeps (emit e)" by (simp add: keeps_def act_defs)
lemma keeps_call: "keeps (call e r)" by (simp add: keeps_def act_defs)
lemma keeps_get_field: "keeps (get_field f)" by (simp add: keeps_def act_defs)
lemma keeps_await: "keeps (await env e r)" by (simp add: keeps_def act_defs)

lemma keeps_bind: 
  assumes "keeps m" "\<And>x. keeps (f x)" shows "keeps (bind m f)"
  unfolding keeps_def
proof
  fix s
  obtain t s' r where ms: "m s = (t, s', r)" by (cases "m s") auto
  from assms(1) have s': "sessionBackup s' = sessionBackup s \<and> isFlushingRoomKeyShares s' = isFlushingRoomKeyShares s"
    unfolding keeps_def using ms by (metis state_of_def fst_conv snd_conv)
  show "sessionBackup (state_of (bind m f s)) = sessionBackup s \<and>
        isFlushingRoomKeyShares (state_of (bind m f s)) = isFlushingRoomKeyShares s"
  proof (cases r)
    case (Inl e)
    then show ?thesis using ms s' by (simp add: bind_def state_of_def)
  next
    case (Inr x)
    obtain t2 s2 r2 where fs: "f x s' = (t2, s2, r2)" by (cases "f x s'") auto
    from assms(2)[of x] have "sessionBackup s2 = sessionBackup s' \<and> isFlushingRoomKeyShares s2 = isFlushingRoomKeyShares s'"
      unfolding keeps_def using fs by (metis state_of_def fst_conv snd_conv)
    then show ?thesis using ms Inr fs s' by (simp add: bind_def state_of_def)
  qed
qed

lemma keeps_try_catch:
  assumes "keeps m" "\<And>e. keeps (h e)" shows "keeps (try_catch m h)"
  unfolding keeps_def
proof
  fix s
  obtain t s' r where ms: "m s = (t, s', r)" by (cases "m s") auto
  from assms(1) have s': "sessionBackup s' = sessionBackup s \<and> isFlushingRoomKeyShares s' = isFlushingRoomKeyShares s"
    unfolding keeps_def using ms by (metis state_of_def fst_conv snd_conv)
  show "sessionBackup (state_of (try_catch m h s)) = sessionBackup s \<and>
        isFlushingRoomKeyShares (state_of (try_catch m h s)) = isFlushingRoomKeyShares s"
  proof (cases r)
    case (Inr x)
    then show ?thesis using ms s' by (simp add: try_catch_def state_of_def)
  next
    case (Inl e)
    obtain t2 s2 r2 where fs: "h e s' = (t2, s2, r2)" by (cases "h e s'") auto
    from assms(2)[of e] have "sessionBackup s2 = sessionBackup s' \<and> isFlushingRoomKeyShares s2 = isFlushingRoomKeyShares s'"
      unfolding keeps_def using fs by (metis state_of_def fst_conv snd_conv)
    then show ?thesis using ms Inl fs s' by (simp add: try_catch_def state_of_def)
  qed
qed

lemma keeps_try_finally:
  assumes "keeps m" "keeps fin" shows "keeps (try_finally m fin)"
  unfolding keeps_def
proof
  fix s
  obtain t s' r where ms: "m s = (t, s', r)" by (cases "m s") auto
  from assms(1) have s': "sessionBackup s' = sessionBackup s \<and> isFlushingRoomKeyShares s' = isFlushingRoomKeyShares s"
    unfolding keeps_def using ms by (metis state_of_def fst_conv snd_conv)
  obtain t2 s2 r2 where fs: "fin s' = (t2, s2, r2)" by (cases "fin s'") auto
  from assms(2) have "sessionBackup s2 = sessionBackup s' \<and> isFlushingRoomKeyShares s2 = isFlushingRoomKeyShares s'"
    unfolding keeps_def using fs by (metis state_of_def fst_conv snd_conv)
  then show "sessionBackup (state_of (try_finally m fin s)) = sessionBackup s \<and>
        isFlushingRoomKeyShares (state_of (try_finally m fin s)) = isFlushingRoomKeyShares s"
    using ms fs s' by (cases r2) (simp_all add: try_finally_def state_of_def)
qed

lemma keeps_log_wrap: "keeps m \<Longrightarrow> keeps (log_wrap l m)"
  unfolding log_wrap_def by (intro keeps_bind keeps_emit)

lemma keeps_readWriteTxn: "keeps (storage_readWriteTxn env names)"
  by (simp add: keeps_def storage_readWriteTxn_def act_defs split: sum.splits) 

lemma keeps_readTxn: "keeps (storage_readTxn env names)"
  by (simp add: keeps_def storage_readTxn_def act_defs split: sum.splits) 

lemma keeps_if: "keeps a \<Longrightarrow> keeps b \<Longrightarrow> keeps (if c then a else b)" by simp
lemma keeps_case_option: "keeps a \<Longrightarrow> (\<And>x. keeps (b x)) \<Longrightarrow> keeps (case v of None \<Rightarrow> a | Some x \<Rightarrow> b x)"
  by (cases v) auto
lemma keeps_case_prod: "(\<And>x y. keeps (b x y)) \<Longrightarrow> keeps (case v of (x, y) \<Rightarrow> b x y)"
  by (cases v) auto
lemma keeps_let: "(\<And>x. keeps (b x)) \<Longrightarrow> keeps (Let v b)"
  by (simp add: Let_def)

lemmas keeps_intros = keeps_return keeps_throw keeps_emit keeps_call keeps_get_field keeps_await
  keeps_bind keeps_try_catch keeps_try_finally keeps_log_wrap keeps_readWriteTxn keeps_readTxn
  keeps_if keeps_case_option keeps_case_prod keeps_let



lemma keeps_request: "keeps (requestMissingSessionFromBackup env a b)"
  unfolding requestMissingSessionFromBackup_def importBackupSession_def
  by (intro keeps_intros)




lemma log_wrap_eq:
  "log_wrap l m s = (case m s of (t, s', r) \<Rightarrow> (Log (LogWrap l) # t, s', r))"
  by (simp add: log_wrap_def bind_def emit_def split: prod.splits)

text \<open>The trace, the fields and the result of composed actions.\<close>

lemma trace_await: "trace_of (await env e r s) = [e]"
  by (simp add: await_eq trace_of_def)

lemma state_await: "state_of (await env e r s) = s\<lparr>disposed := disposed s \<or> disposeDuring env e\<rparr>"
  by (simp add: await_eq state_of_def)

lemma result_await: "result_of (await env e r s) = r"
  by (simp add: await_eq result_of_def)

lemma promise_all_Cons_trace:
  "trace_of (promise_all (m # ms) s) = trace_of (m s) @ trace_of (promise_all ms (state_of (m s)))"
  by (simp add: trace_of_def state_of_def split: prod.splits)

lemma promise_all_Cons_state:
  "state_of (promise_all (m # ms) s) = state_of (promise_all ms (state_of (m s)))"
  by (simp add: state_of_def split: prod.splits)

lemma promise_all_Cons_result:
  "result_of (promise_all (m # ms) s) =
     (case result_of (m s) of
        Inl e \<Rightarrow> Inl e
      | Inr x \<Rightarrow> (case result_of (promise_all ms (state_of (m s))) of
                    Inl e \<Rightarrow> Inl e | Inr xs \<Rightarrow> Inr (x # xs)))"
  by (simp add: result_of_def state_of_def split: prod.splits sum.splits)

lemma promise_all_Nil: "trace_of (promise_all [] s) = []" "state_of (promise_all [] s) = s"
  "result_of (promise_all [] s) = Inr []"
  by (simp_all add: return_def trace_of_def state_of_def result_of_def)

lemma promise_all_await_trace:
  "trace_of (promise_all (map (\<lambda>x. await env (E x) (R x)) xs) s) = map E xs"
  by (induction xs arbitrary: s)
    (simp_all add: promise_all_Nil promise_all_Cons_trace trace_await del: promise_all.simps)

lemma promise_all_await_state:
  "state_of (promise_all (map (\<lambda>x. await env (E x) (R x)) xs) s) =
     s\<lparr>disposed := disposed s \<or> (\<exists>x\<in>set xs. disposeDuring env (E x))\<rparr>"
  by (induction xs arbitrary: s)
    (simp_all add: promise_all_Nil promise_all_Cons_state state_await disj_ac del: promise_all.simps)

lemma promise_all_await_result:
  "\<forall>x\<in>set xs. \<exists>v. R x = Inr v \<Longrightarrow>
   result_of (promise_all (map (\<lambda>x. await env (E x) (R x)) xs) s) = Inr (map (\<lambda>x. projr (R x)) xs)"
  by (induction xs arbitrary: s)
    (auto simp add: promise_all_Nil promise_all_Cons_result result_await simp del: promise_all.simps)

lemma trace_bind:
  "trace_of (bind m f s) =
     trace_of (m s) @ (case result_of (m s) of Inl e \<Rightarrow> [] | Inr x \<Rightarrow> trace_of (f x (state_of (m s))))"
  by (simp add: bind_def trace_of_def state_of_def result_of_def split: prod.splits sum.splits)

lemma state_bind:
  "state_of (bind m f s) =
     (case result_of (m s) of Inl e \<Rightarrow> state_of (m s) | Inr x \<Rightarrow> state_of (f x (state_of (m s))))"
  by (simp add: bind_def trace_of_def state_of_def result_of_def split: prod.splits sum.splits)

lemma result_bind:
  "result_of (bind m f s) =
     (case result_of (m s) of Inl e \<Rightarrow> Inl e | Inr x \<Rightarrow> result_of (f x (state_of (m s))))"
  by (simp add: bind_def trace_of_def state_of_def result_of_def split: prod.splits sum.splits)

lemma proj_return: "trace_of (return x s) = []" "state_of (return x s) = s" "result_of (return x s) = Inr x"
  by (simp_all add: return_def trace_of_def state_of_def result_of_def)

lemma proj_emit: "trace_of (emit e s) = [e]" "state_of (emit e s) = s" "result_of (emit e s) = Inr ()"
  by (simp_all add: emit_def trace_of_def state_of_def result_of_def)

lemma proj_get_field: "trace_of (get_field f s) = []" "state_of (get_field f s) = s"
  "result_of (get_field f s) = Inr (f s)"
  by (simp_all add: get_field_def trace_of_def state_of_def result_of_def)

lemma proj_log_wrap: "trace_of (log_wrap l m s) = Log (LogWrap l) # trace_of (m s)"
  "state_of (log_wrap l m s) = state_of (m s)" "result_of (log_wrap l m s) = result_of (m s)"
  by (simp_all add: log_wrap_eq trace_of_def state_of_def result_of_def split: prod.splits)

lemmas proj_simps = trace_bind state_bind result_bind proj_return proj_emit proj_get_field
  proj_log_wrap trace_await state_await result_await

subsection \<open>Grouping and payloads\<close>

lemma groupBy_fold_map_of:
  "map_of (fold (\<lambda>x groups. AList.update (f x)
           (case map_of groups (f x) of None \<Rightarrow> [x] | Some xs \<Rightarrow> xs @ [x]) groups) xs acc) k =
   (case map_of acc k of
      None \<Rightarrow> (if k \<in> f ` set xs then Some (filter (\<lambda>x. f x = k) xs) else None)
    | Some ys \<Rightarrow> Some (ys @ filter (\<lambda>x. f x = k) xs))"
proof (induction xs arbitrary: acc)
  case Nil
  then show ?case by (simp split: option.splits)
next
  case (Cons x xs)
  show ?case
    by (auto simp: Cons.IH update_conv' split: option.splits)
qed

lemma groupBy_map_of:
  "map_of (groupBy xs f) k = (if k \<in> f ` set xs then Some (filter (\<lambda>x. f x = k) xs) else None)"
  unfolding groupBy_def by (simp add: groupBy_fold_map_of)

lemma groupBy_fold_distinct:
  "distinct (map fst acc) \<Longrightarrow>
   distinct (map fst (fold (\<lambda>x groups. AList.update (f x)
           (case map_of groups (f x) of None \<Rightarrow> [x] | Some xs \<Rightarrow> xs @ [x]) groups) xs acc))"
  by (induction xs arbitrary: acc) (simp_all add: distinct_update)

lemma groupBy_distinct: "distinct (map fst (groupBy xs f))"
  unfolding groupBy_def by (rule groupBy_fold_distinct) simp

lemma groupBy_set:
  "set (groupBy xs f) = (\<lambda>k. (k, filter (\<lambda>x. f x = k) xs)) ` f ` set xs"
proof -
  have "(k, v) \<in> set (groupBy xs f) \<longleftrightarrow> (k \<in> f ` set xs \<and> v = filter (\<lambda>x. f x = k) xs)" for k v
    using map_of_eq_Some_iff [OF groupBy_distinct, of xs f k v]
    by (auto simp: groupBy_map_of split: if_splits)
  then show ?thesis by (auto simp: image_iff)
qed

lemma update_same_value:
  "\<forall>p\<in>set acc. snd p = c \<Longrightarrow> set (AList.update k c acc) = insert (k, c) (set acc)"
  by (induction acc) auto

lemma fold_update_set:
  "\<forall>p\<in>set acc. snd p = c \<Longrightarrow>
   set (fold (\<lambda>d deviceMap. AList.update (g d) c deviceMap) ds acc) = set acc \<union> (\<lambda>d. (g d, c)) ` set ds"
proof (induction ds arbitrary: acc)
  case Nil
  then show ?case by simp
next
  case (Cons d ds)
  have "\<forall>p\<in>set (AList.update (g d) c acc). snd p = c"
    using Cons.prems by (simp add: update_same_value)
  from Cons.IH [OF this] show ?case
    using Cons.prems by (simp add: update_same_value)
qed

lemma shared_payload_entries:
  "set (payload_entries (shared_payload c devices)) = (\<lambda>d. (userId d, deviceId d, c)) ` set devices"
proof -
  have "set (payload_entries (shared_payload c devices)) =
     (\<Union>u \<in> userId ` set devices. (\<lambda>d. (u, deviceId d, c)) ` {d \<in> set devices. userId d = u})"
    by (auto simp: payload_entries_def shared_payload_def Let_def groupBy_set fold_update_set image_iff)
  also have "\<dots> = (\<lambda>d. (userId d, deviceId d, c)) ` set devices"
    by (auto simp: image_iff) metis
  finally show ?thesis .
qed

lemma set_add_fold:
  "set (fold (\<lambda>device set. set_add set (g device)) ds acc) = set acc \<union> g ` set ds"
  by (induction ds arbitrary: acc) (auto simp: set_add_def)

lemma set_add_fold_distinct:
  "distinct acc \<Longrightarrow> distinct (fold (\<lambda>device set. set_add set (g device)) ds acc)"
  by (induction ds arbitrary: acc) (auto simp: set_add_def)

lemma resolve_userIds_set: "set (resolve_userIds devices) = userId ` set devices"
  by (simp add: resolve_userIds_def set_add_fold)

lemma resolve_userIds_distinct: "distinct (resolve_userIds devices)"
  by (simp add: resolve_userIds_def set_add_fold_distinct)

lemma missing_devices_set:
  "set (missing_devices devices messages) = set devices - device ` set messages"
  by (auto simp: missing_devices_def list_ex_iff)

lemma unsent_userIds_set:
  "set (unsent_userIds userIds missing) = set userIds \<inter> userId ` set missing"
  by (auto simp: unsent_userIds_def list_ex_iff)

lemma groupEventsBySession_Nil: "groupEventsBySession [] = []"
  by (simp add: groupEventsBySession_def groupBy_def)

subsection \<open>Membership changes\<close>



text \<open>
  C10. \<open>writeMemberChanges\<close> returns \<open>undefined\<close> (\<open>None\<close>; not \<open>false\<close>) when no member
  change has \<open>hasJoined\<close>, also when members only left. It returns \<open>false\<close> and adds no
  operation when members joined and the engine gives no room key message. When it returns
  \<open>true\<close>, an operation was added in the given transaction. (The device tracker is taken
  not to throw in the first two parts; when it throws, so does the call.)
\<close>

theorem C10_writeMemberChanges_result:
  "(\<not> list_ex hasJoined mcs \<and> deviceTracker_writeMemberChanges env = Inr ()
      \<longrightarrow> result_of (writeMemberChanges env mcs t s) = Inr None)
   \<and> (list_ex hasJoined mcs \<and> megolmEncryption_createRoomKeyMessage env = Inr None
        \<and> deviceTracker_writeMemberChanges env = Inr ()
      \<longrightarrow> result_of (writeMemberChanges env mcs t s) = Inr (Some False)
          \<and> filter is_OperationsAdd (trace_of (writeMemberChanges env mcs t s)) = [])
   \<and> (result_of (writeMemberChanges env mcs t s) = Inr (Some True)
      \<longrightarrow> (\<exists>operation.
             Storage (OperationsAdd t operation) \<in> set (trace_of (writeMemberChanges env mcs t s))
             \<and> operations_add env operation = Inr ()))"
  by (auto simp: member_defs act_defs Let_def split: sum.splits option.splits)

theorem C10_writeMemberChanges_result_witness:
  "\<not> list_ex hasJoined [dave_leaves]
   \<and> result_of (writeMemberChanges env0 [dave_leaves] (Txn 7) s0) = Inr None
   \<and> list_ex hasJoined [carol_joins]
   \<and> result_of (writeMemberChanges (env0\<lparr>megolmEncryption_createRoomKeyMessage := Inr None\<rparr>)
        [carol_joins] (Txn 7) s0) = Inr (Some False)
   \<and> filter is_OperationsAdd (trace_of (writeMemberChanges
        (env0\<lparr>megolmEncryption_createRoomKeyMessage := Inr None\<rparr>) [carol_joins] (Txn 7) s0)) = []
   \<and> result_of (writeMemberChanges env0 [carol_joins] (Txn 7) s0) = Inr (Some True)
   \<and> (\<exists>operation.
        Storage (OperationsAdd (Txn 7) operation)
          \<in> set (trace_of (writeMemberChanges env0 [carol_joins] (Txn 7) s0)))"
proof -
  have r: "result_of (writeMemberChanges env0 [carol_joins] (Txn 7) s0) = Inr (Some True)"
    by (simp add: member_defs act_defs env0_def carol_joins_def Let_def)
  show ?thesis
    using C10_writeMemberChanges_result
        [where mcs = "[dave_leaves]" and env = env0 and t = "Txn 7" and s = s0]
      C10_writeMemberChanges_result
        [where mcs = "[carol_joins]"
           and env = "env0\<lparr>megolmEncryption_createRoomKeyMessage := Inr None\<rparr>"
           and t = "Txn 7" and s = s0]
      C10_writeMemberChanges_result
        [where mcs = "[carol_joins]" and env = env0 and t = "Txn 7" and s = s0] r
    by (auto simp: env0_def carol_joins_def dave_leaves_def)
qed

subsection \<open>Recovering a session from the key backup\<close>

lemmas txn_defs = storage_readTxn_def storage_readWriteTxn_def

text \<open>
  C2, as the source has it. For every record that the backup returns with a sender key
  other than the expected one: the room key is not written (no \<open>writeRoomKey\<close>, no
  read-write transaction is opened at all), \<open>notifyRoomKey\<close> is not called, and the call
  returns. When the record's algorithm is the Megolm algorithm, the mismatch is logged
  (\<open>wrong_sender_key\<close>) and the log level set to \<open>Warn\<close>, and nothing else happens.
  The sender key is compared only after the algorithm: a record with another algorithm is
  not logged at warning level (see the counterexample).
\<close>

theorem C2_wrong_sender_key_not_imported:
  assumes "sessionBackup s"
    and "sessionBackup_getSession env sessionId = Inr (Some session)"
    and "bs_sender_key session \<noteq> senderKey"
  shows "filter is_WriteRoomKey
           (trace_of (requestMissingSessionFromBackup env senderKey sessionId s)) = []
    \<and> filter is_ReadWriteTxn
           (trace_of (requestMissingSessionFromBackup env senderKey sessionId s)) = []
    \<and> filter is_NotifyRoomKey
           (trace_of (requestMissingSessionFromBackup env senderKey sessionId s)) = []
    \<and> result_of (requestMissingSessionFromBackup env senderKey sessionId s) = Inr ()
    \<and> (bs_algorithm session = Some MEGOLM_ALGORITHM \<longrightarrow>
         trace_of (requestMissingSessionFromBackup env senderKey sessionId s) =
           [Log (LogSet ''id'' (log_opt sessionId)),
            Log (LogSet ''senderKey'' (log_opt senderKey)),
            BackupGetSession (room_id env) sessionId,
            Log (LogSet ''wrong_sender_key'' (log_opt (bs_sender_key session))),
            Log (LogLevel Warn)])"
  using assms by (simp add: request_defs act_defs)

theorem C2_wrong_sender_key_not_imported_witness:
  "sessionBackup s1
   \<and> bs_sender_key wrong_sender_session \<noteq> Some ''KEY''
   \<and> bs_algorithm wrong_sender_session = Some MEGOLM_ALGORITHM
   \<and> filter is_WriteRoomKey (trace_of (requestMissingSessionFromBackup
        (env0\<lparr>sessionBackup_getSession := (\<lambda>sessionId. Inr (Some wrong_sender_session))\<rparr>)
        (Some ''KEY'') (Some ''sess1'') s1)) = []
   \<and> filter is_NotifyRoomKey (trace_of (requestMissingSessionFromBackup
        (env0\<lparr>sessionBackup_getSession := (\<lambda>sessionId. Inr (Some wrong_sender_session))\<rparr>)
        (Some ''KEY'') (Some ''sess1'') s1)) = []
   \<and> trace_of (requestMissingSessionFromBackup
        (env0\<lparr>sessionBackup_getSession := (\<lambda>sessionId. Inr (Some wrong_sender_session))\<rparr>)
        (Some ''KEY'') (Some ''sess1'') s1) =
       [Log (LogSet ''id'' (LStr ''sess1'')), Log (LogSet ''senderKey'' (LStr ''KEY'')),
        BackupGetSession ''!room:hs'' (Some ''sess1''),
        Log (LogSet ''wrong_sender_key'' (LStr ''EVIL'')), Log (LogLevel Warn)]"
  using C2_wrong_sender_key_not_imported
    [where s = s1 and sessionId = "Some ''sess1''" and senderKey = "Some ''KEY''"
       and session = wrong_sender_session
       and env = "env0\<lparr>sessionBackup_getSession := (\<lambda>sessionId. Inr (Some wrong_sender_session))\<rparr>"]
  by (simp add: s1_def s0_def wrong_sender_session_def MEGOLM_ALGORITHM_def env0_def log_opt_def)

text \<open>
  C2 as the claim states it fails: the backup returns a record with another algorithm and
  a sender key other than the expected one; the mismatch is not logged at warning level
  (the record is logged as an unknown algorithm).
\<close>

theorem C2_counterexample:
  "bs_sender_key other_algorithm_session \<noteq> Some ''KEY''
   \<and> trace_of (requestMissingSessionFromBackup
        (env0\<lparr>sessionBackup_getSession := (\<lambda>sessionId. Inr (Some other_algorithm_session))\<rparr>)
        (Some ''KEY'') (Some ''sess1'') s1) =
       [Log (LogSet ''id'' (LStr ''sess1'')), Log (LogSet ''senderKey'' (LStr ''KEY'')),
        BackupGetSession ''!room:hs'' (Some ''sess1''),
        Log (LogSet ''unknown algorithm'' (LStr ''m.other.v1''))]
   \<and> Log (LogLevel Warn) \<notin> set (trace_of (requestMissingSessionFromBackup
        (env0\<lparr>sessionBackup_getSession := (\<lambda>sessionId. Inr (Some other_algorithm_session))\<rparr>)
        (Some ''KEY'') (Some ''sess1'') s1))"
  by (simp add: request_defs act_defs env0_def s1_def s0_def
      log_opt_def other_algorithm_session_def MEGOLM_ALGORITHM_def)

text \<open>
  C4, evaluated. The backup answers "not found" (a \<open>HomeServerError\<close> with errcode
  \<open>M_NOT_FOUND\<close>): the source sets \<open>log.error\<close> and the log level \<open>Error\<close>. The
  backup fails with another error: the source sets \<open>not_found\<close> on the log item and
  leaves the log level alone. The two branches of the \<open>catch\<close> are the wrong way round.
  Neither error is thrown on.
\<close>

theorem C4_not_found_logged_at_error_level:
  "trace_of (requestMissingSessionFromBackup
       (env0\<lparr>sessionBackup_getSession := (\<lambda>sessionId. Inl not_found_error)\<rparr>)
       (Some ''KEY'') (Some ''sess1'') s1) =
     [Log (LogSet ''id'' (LStr ''sess1'')), Log (LogSet ''senderKey'' (LStr ''KEY'')),
      BackupGetSession ''!room:hs'' (Some ''sess1''),
      Log (LogError not_found_error), Log (LogLevel Error)]
   \<and> result_of (requestMissingSessionFromBackup
       (env0\<lparr>sessionBackup_getSession := (\<lambda>sessionId. Inl not_found_error)\<rparr>)
       (Some ''KEY'') (Some ''sess1'') s1) = Inr ()
   \<and> trace_of (requestMissingSessionFromBackup
       (env0\<lparr>sessionBackup_getSession := (\<lambda>sessionId. Inl connection_error)\<rparr>)
       (Some ''KEY'') (Some ''sess1'') s1) =
     [Log (LogSet ''id'' (LStr ''sess1'')), Log (LogSet ''senderKey'' (LStr ''KEY'')),
      BackupGetSession ''!room:hs'' (Some ''sess1''),
      Log (LogSet ''not_found'' (LBool True))]
   \<and> result_of (requestMissingSessionFromBackup
       (env0\<lparr>sessionBackup_getSession := (\<lambda>sessionId. Inl connection_error)\<rparr>)
       (Some ''KEY'') (Some ''sess1'') s1) = Inr ()"
  by (simp add: request_defs act_defs env0_def s1_def s0_def log_opt_def
      not_found_error_def connection_error_def)

subsection \<open>Sharing a new room key\<close>

lemmas share_defs = shareNewRoomKey_def processShareRoomKeyOperation_def
  updateOperationsStore_def sendMessagesToDevices_def sendSharedMessageToDevices_def
  writeRoomKeyShareOperation_def

lemma shareNewRoomKey_never_completes:
  "Storage (TxnComplete (Txn (txn_count s))) \<notin> set (trace_of (shareNewRoomKey env rkm s))"
  by (auto simp: share_defs txn_defs act_defs Let_def
      split: sum.splits option.splits prod.splits)

lemma shareNewRoomKey_network_failure:
  "trace_of (shareNewRoomKey (env0\<lparr>deviceTracker_trackRoom := Inl connection_error\<rparr>) rkm0 s0) =
     [Storage (ReadWriteTxn [''operations''] (Txn 0)),
      Storage (OperationsAdd (Txn 0) \<lparr>op_id = ''4242'', op_type = ''share_room_key'',
         op_scope = ''!room:hs'', op_userIds = None, op_roomKeyMessage = rkm0\<rparr>),
      Log (LogSet ''id'' (LStr ''4242'')), Devices TrackRoom]
   \<and> result_of (shareNewRoomKey (env0\<lparr>deviceTracker_trackRoom := Inl connection_error\<rparr>)
        rkm0 s0) = Inl connection_error"
  by (simp add: share_defs txn_defs act_defs Let_def env0_def s0_def)

text \<open>
  C3, evaluated. \<open>_shareNewRoomKey\<close> opens the write transaction \<open>Txn (txn_count s)\<close>
  and adds the operation with \<open>userIds = null\<close> in it, but whatever the collaborators
  answer, the trace of the call has no \<open>complete()\<close> of that transaction: the source
  goes from the \<open>try/catch\<close> around \<open>_writeRoomKeyShareOperation\<close> straight to
  \<open>_processShareRoomKeyOperation\<close>. With a device tracker that fails (the network phase
  throws), the call ends with the transaction opened, the operation added, and nothing
  committed.
\<close>

theorem C3_write_transaction_never_completed:
  "Storage (TxnComplete (Txn (txn_count s))) \<notin> set (trace_of (shareNewRoomKey env rkm s))
   \<and> trace_of (shareNewRoomKey (env0\<lparr>deviceTracker_trackRoom := Inl connection_error\<rparr>)
        rkm0 s0) =
       [Storage (ReadWriteTxn [''operations''] (Txn 0)),
        Storage (OperationsAdd (Txn 0) \<lparr>op_id = ''4242'', op_type = ''share_room_key'',
           op_scope = ''!room:hs'', op_userIds = None, op_roomKeyMessage = rkm0\<rparr>),
        Log (LogSet ''id'' (LStr ''4242'')), Devices TrackRoom]
   \<and> result_of (shareNewRoomKey (env0\<lparr>deviceTracker_trackRoom := Inl connection_error\<rparr>)
        rkm0 s0) = Inl connection_error"
  using shareNewRoomKey_never_completes [of s env rkm] shareNewRoomKey_network_failure
  by simp

subsection \<open>Decrypting a batch of events\<close>

lemmas decrypt_defs = prepareDecryptAll_def prepare_step_def ev_algorithm_def
  ev_sender_key_def ev_session_id_def DecryptionChanges_write_def
  processDecryptionResults_def missing_session_events_def mergeMap_def js_string_def

text \<open>
  C1, evaluated. An event whose content algorithm is not the Megolm algorithm gets its
  error in \<open>errors\<close> and is then pushed on \<open>validEvents\<close> all the same: the loop of
  \<open>prepareDecryptAll\<close> has no \<open>continue\<close> after \<open>errors.set\<close>, so the event is
  handed to the decryption engine. With an engine that decrypts what it is handed, the
  event then is in the results map and in the errors map of \<open>DecryptionChanges.write\<close>.
\<close>

theorem C1_unsupported_event_handed_to_engine:
  "trace_of (prepareDecryptAll env0 [olm_event] Sync (Txn 7) s0) =
     [Megolm (PrepareDecryptAll ''!room:hs'' [olm_event] SyncCache (Txn 7))]
   \<and> result_of (prepareDecryptAll env0 [olm_event] Sync (Txn 7) s0) =
       Inr \<lparr>megolmDecryptionPreparation = [olm_event],
            extraErrors = [''$olm'' \<mapsto> unsupported_error],
            prep_source = Sync, prep_events = [olm_event]\<rparr>
   \<and> result_of (DecryptionChanges_write (env0\<lparr>megolmDecryption_write := decrypts_all\<rparr>)
        \<lparr>megolmDecryptionPreparation = [olm_event],
         extraErrors = [''$olm'' \<mapsto> unsupported_error],
         prep_source = Sync, prep_events = [olm_event]\<rparr> (Txn 7) s0) =
       Inr \<lparr>results_map = [''$olm'' \<mapsto> ''plaintext''],
            errors_map = [''$olm'' \<mapsto> unsupported_error]\<rparr>"
  by (simp add: decrypt_defs act_defs env0_def s0_def olm_event_def unsupported_error_def
      decrypts_all_def MEGOLM_ALGORITHM_def)

subsection \<open>Flushing the pending key shares\<close>

















subsection \<open>Processing a key share operation\<close>

lemma process_success:
  assumes st: "storage_succeeds env" and nw: "network_succeeds env"
    and dv: "(case op_userIds operation of
               None \<Rightarrow> deviceTracker_devicesForTrackedRoom env
             | Some userIds \<Rightarrow> deviceTracker_devicesForRoomMembers env userIds) = Inr devices"
    and ol: "olmEncryption_encrypt env (op_roomKeyMessage operation) devices = Inr messages"
  shows "(let rkm = op_roomKeyMessage operation;
              userIds = (case op_userIds operation of
                           None \<Rightarrow> resolve_userIds devices | Some userIds \<Rightarrow> userIds);
              missing = missing_devices devices messages;
              unsent = unsent_userIds userIds missing;
              n1 = txn_count s + (if op_userIds operation = None then 1 else 0);
              n2 = n1 + (if missing = [] then 0 else 1)
          in trace_of (processShareRoomKeyOperation env operation s) =
               [Log (LogSet ''id'' (LStr (op_id operation))), Devices TrackRoom]
               @ (case op_userIds operation of
                    None \<Rightarrow>
                      [Devices (DevicesForTrackedRoom (room_id env)),
                       Storage (ReadWriteTxn [''operations''] (Txn (txn_count s))),
                       Storage (OperationsUpdate (Txn (txn_count s))
                         (operation\<lparr>op_userIds := Some userIds\<rparr>)),
                       Storage (TxnComplete (Txn (txn_count s)))]
                  | Some given \<Rightarrow> [Devices (DevicesForRoomMembers (room_id env) given)])
               @ [Log (LogWrap ''olm encrypt''),
                  Devices (OlmEncrypt ''m.room_key'' rkm devices),
                  Log (LogWrap ''send''),
                  Log (LogSet ''messages'' (LNum (length messages))),
                  SendToDevice ENCRYPTED_TYPE (messages_payload messages) (makeTxnId env)]
               @ (if missing = [] then []
                  else
                    [Log (LogWrap ''missingDevices''),
                     Log (LogSet ''devices'' (LStrs (map deviceId missing))),
                     Log (LogSet ''unsentUserIds'' (LStrs unsent)),
                     Storage (ReadWriteTxn [''operations''] (Txn n1)),
                     Storage (OperationsUpdate (Txn n1) (operation\<lparr>op_userIds := Some unsent\<rparr>)),
                     Storage (TxnComplete (Txn n1)),
                     SendToDevice ''org.matrix.room_key.withheld''
                       (shared_payload (WithheldMessage rkm ''m.no_olm'' ''OTKs exhausted'') missing)
                       (makeTxnId env)])
               @ [Storage (ReadWriteTxn [''operations''] (Txn n2)),
                  Storage (OperationsRemove (Txn n2) (op_id operation)),
                  Storage (TxnComplete (Txn n2))]
             \<and> result_of (processShareRoomKeyOperation env operation s) = Inr ())"
proof (cases "op_userIds operation")
  case None
  then show ?thesis
    using st nw dv ol
    by (simp add: storage_succeeds_def network_succeeds_def share_defs txn_defs act_defs Let_def)
next
  case (Some given)
  then show ?thesis
    using st nw dv ol
    by (simp add: storage_succeeds_def network_succeeds_def share_defs txn_defs act_defs Let_def)
qed

lemma process_persists_before_send:
  "op_userIds operation = None \<Longrightarrow>
   all_preceded (\<lambda>e. e = Storage (TxnComplete (Txn (txn_count s)))) is_SendToDevice
     (trace_of (processShareRoomKeyOperation env operation s))
   \<and> all_preceded
       (\<lambda>e. \<exists>devices. deviceTracker_devicesForTrackedRoom env = Inr devices
              \<and> e = Storage (OperationsUpdate (Txn (txn_count s))
                      (operation\<lparr>op_userIds := Some (resolve_userIds devices)\<rparr>)))
       (\<lambda>e. e = Storage (TxnComplete (Txn (txn_count s))))
       (trace_of (processShareRoomKeyOperation env operation s))"
  by (auto simp: share_defs txn_defs act_defs Let_def split: sum.splits)

text \<open>
  C7. For every operation processed by \<open>_processShareRoomKeyOperation\<close>:

  \<^item> when \<open>userIds\<close> is \<open>null\<close>, whatever the collaborators answer, every message sent
    (\<open>sendToDevice\<close>) comes after the \<open>complete()\<close> of the first transaction of the
    call, which comes after the update, in that transaction, of the operation with
    \<open>userIds\<close> the user ids of the devices of the tracked room;
  \<^item> when the storage, the device tracker, the olm layer and the home server answer, the
    trace is: track the room; get the devices (and, for \<open>null\<close>, store the resolved user
    ids); olm-encrypt; send the messages; when devices are missing, store the operation
    narrowed to the unsent user ids and then send the withheld notice (\<open>m.no_olm\<close>, "OTKs
    exhausted") to the missing devices; last, remove the operation in a transaction that
    is completed, whether devices were missing or not;
  \<^item> the resolved user ids are the owners of the devices; the missing devices are the
    devices no message is for; the unsent user ids are the user ids of the operation that
    own a missing device, which for resolved user ids are the owners of the missing
    devices; the withheld notice goes to the missing devices.
\<close>

theorem C7_processShareRoomKeyOperation:
  "(op_userIds operation = None \<longrightarrow>
      all_preceded (\<lambda>e. e = Storage (TxnComplete (Txn (txn_count s)))) is_SendToDevice
        (trace_of (processShareRoomKeyOperation env operation s))
      \<and> all_preceded
          (\<lambda>e. \<exists>devices. deviceTracker_devicesForTrackedRoom env = Inr devices
                 \<and> e = Storage (OperationsUpdate (Txn (txn_count s))
                         (operation\<lparr>op_userIds := Some (resolve_userIds devices)\<rparr>)))
          (\<lambda>e. e = Storage (TxnComplete (Txn (txn_count s))))
          (trace_of (processShareRoomKeyOperation env operation s)))
   \<and> (storage_succeeds env \<and> network_succeeds env
        \<and> (case op_userIds operation of
              None \<Rightarrow> deviceTracker_devicesForTrackedRoom env
            | Some userIds \<Rightarrow> deviceTracker_devicesForRoomMembers env userIds) = Inr devices
        \<and> olmEncryption_encrypt env (op_roomKeyMessage operation) devices = Inr messages
      \<longrightarrow>
        (let rkm = op_roomKeyMessage operation;
             userIds = (case op_userIds operation of
                          None \<Rightarrow> resolve_userIds devices | Some userIds \<Rightarrow> userIds);
             missing = missing_devices devices messages;
             unsent = unsent_userIds userIds missing;
             n1 = txn_count s + (if op_userIds operation = None then 1 else 0);
             n2 = n1 + (if missing = [] then 0 else 1)
         in trace_of (processShareRoomKeyOperation env operation s) =
              [Log (LogSet ''id'' (LStr (op_id operation))), Devices TrackRoom]
              @ (case op_userIds operation of
                   None \<Rightarrow>
                     [Devices (DevicesForTrackedRoom (room_id env)),
                      Storage (ReadWriteTxn [''operations''] (Txn (txn_count s))),
                      Storage (OperationsUpdate (Txn (txn_count s))
                        (operation\<lparr>op_userIds := Some userIds\<rparr>)),
                      Storage (TxnComplete (Txn (txn_count s)))]
                 | Some given \<Rightarrow> [Devices (DevicesForRoomMembers (room_id env) given)])
              @ [Log (LogWrap ''olm encrypt''),
                 Devices (OlmEncrypt ''m.room_key'' rkm devices),
                 Log (LogWrap ''send''),
                 Log (LogSet ''messages'' (LNum (length messages))),
                 SendToDevice ENCRYPTED_TYPE (messages_payload messages) (makeTxnId env)]
              @ (if missing = [] then []
                 else
                   [Log (LogWrap ''missingDevices''),
                    Log (LogSet ''devices'' (LStrs (map deviceId missing))),
                    Log (LogSet ''unsentUserIds'' (LStrs unsent)),
                    Storage (ReadWriteTxn [''operations''] (Txn n1)),
                    Storage (OperationsUpdate (Txn n1) (operation\<lparr>op_userIds := Some unsent\<rparr>)),
                    Storage (TxnComplete (Txn n1)),
                    SendToDevice ''org.matrix.room_key.withheld''
                      (shared_payload (WithheldMessage rkm ''m.no_olm'' ''OTKs exhausted'') missing)
                      (makeTxnId env)])
              @ [Storage (ReadWriteTxn [''operations''] (Txn n2)),
                 Storage (OperationsRemove (Txn n2) (op_id operation)),
                 Storage (TxnComplete (Txn n2))]
            \<and> result_of (processShareRoomKeyOperation env operation s) = Inr ()))
   \<and> set (resolve_userIds devices) = userId ` set devices
   \<and> set (missing_devices devices messages) = set devices - device ` set messages
   \<and> set (unsent_userIds userIds missingDevices) = set userIds \<inter> userId ` set missingDevices
   \<and> set (unsent_userIds (resolve_userIds devices) (missing_devices devices messages)) =
        userId ` set (missing_devices devices messages)
   \<and> set (payload_entries (shared_payload c missingDevices)) =
        (\<lambda>d. (userId d, deviceId d, c)) ` set missingDevices"
proof -
  have "set (unsent_userIds (resolve_userIds devices) (missing_devices devices messages)) =
        userId ` set (missing_devices devices messages)"
    by (auto simp: unsent_userIds_set resolve_userIds_set missing_devices_set)
  then show ?thesis
    using process_persists_before_send [where operation = operation and s = s and env = env]
      process_success [where operation = operation and s = s and env = env
        and devices = devices and messages = messages]
      resolve_userIds_set [of devices] missing_devices_set [of devices messages]
      unsent_userIds_set [of userIds missingDevices]
      shared_payload_entries [of c missingDevices]
    by blast
qed

theorem C7_processShareRoomKeyOperation_witness:
  "op_userIds op_null = None
   \<and> storage_succeeds env_bob_missing \<and> network_succeeds env_bob_missing
   \<and> deviceTracker_devicesForTrackedRoom env_bob_missing = Inr [alice_phone, bob_laptop]
   \<and> olmEncryption_encrypt env_bob_missing rkm0 [alice_phone, bob_laptop] =
        Inr [\<lparr>device = alice_phone, msg_content = ''olm''\<rparr>]
   \<and> trace_of (processShareRoomKeyOperation env_bob_missing op_null s0) =
       [Log (LogSet ''id'' (LStr ''3'')), Devices TrackRoom,
        Devices (DevicesForTrackedRoom ''!room:hs''),
        Storage (ReadWriteTxn [''operations''] (Txn 0)),
        Storage (OperationsUpdate (Txn 0)
          (op_null\<lparr>op_userIds := Some [''@alice:hs'', ''@bob:hs'']\<rparr>)),
        Storage (TxnComplete (Txn 0)),
        Log (LogWrap ''olm encrypt''),
        Devices (OlmEncrypt ''m.room_key'' rkm0 [alice_phone, bob_laptop]),
        Log (LogWrap ''send''), Log (LogSet ''messages'' (LNum 1)),
        SendToDevice ''m.room.encrypted''
          [(''@alice:hs'', [(''APHONE'', OlmContent ''olm'')])] ''t1'',
        Log (LogWrap ''missingDevices''), Log (LogSet ''devices'' (LStrs [''BLAPTOP''])),
        Log (LogSet ''unsentUserIds'' (LStrs [''@bob:hs''])),
        Storage (ReadWriteTxn [''operations''] (Txn 1)),
        Storage (OperationsUpdate (Txn 1) (op_null\<lparr>op_userIds := Some [''@bob:hs'']\<rparr>)),
        Storage (TxnComplete (Txn 1)),
        SendToDevice ''org.matrix.room_key.withheld''
          [(''@bob:hs'', [(''BLAPTOP'', WithheldMessage rkm0 ''m.no_olm'' ''OTKs exhausted'')])]
          ''t1'',
        Storage (ReadWriteTxn [''operations''] (Txn 2)),
        Storage (OperationsRemove (Txn 2) ''3''),
        Storage (TxnComplete (Txn 2))]
   \<and> result_of (processShareRoomKeyOperation env_bob_missing op_null s0) = Inr ()"
  using C7_processShareRoomKeyOperation
    [where operation = op_null and env = env_bob_missing and s = s0
       and devices = "[alice_phone, bob_laptop]"
       and messages = "[\<lparr>device = alice_phone, msg_content = ''olm''\<rparr>]"]
  by (simp add: op_null_def env_bob_missing_def env0_def s0_def storage_succeeds_def
      network_succeeds_def alice_phone_def bob_laptop_def resolve_userIds_def set_add_def
      missing_devices_def unsent_userIds_def messages_payload_def shared_payload_def
      groupBy_def ENCRYPTED_TYPE_def Let_def)

subsection \<open>Events without a session\<close>

lemma processDecryptionResults_no_backup:
  assumes nb: "\<not> sessionBackup s"
  shows "trace_of (processDecryptionResults env events errs Sync t s) =
      map (\<lambda>(key, events). Megolm (AddMissingKeyEventIds (room_id env) (fst key) (snd key)
               (map event_id events) t))
          (groupEventsBySession (missing_session_events errs events))"
    and "(\<forall>senderKey sessionId. megolmDecryption_addMissingKeyEventIds env senderKey sessionId = Inr ())
      \<Longrightarrow> result_of (processDecryptionResults env events errs Sync t s) = Inr ()"
proof -
  show "trace_of (processDecryptionResults env events errs Sync t s) =
      map (\<lambda>(key, events). Megolm (AddMissingKeyEventIds (room_id env) (fst key) (snd key)
               (map event_id events) t))
          (groupEventsBySession (missing_session_events errs events))"
    using nb
    by (simp add: processDecryptionResults_def Let_def case_prod_unfold proj_simps
        promise_all_await_trace promise_all_await_state groupEventsBySession_Nil
        split: sum.splits)
  assume ok: "\<forall>senderKey sessionId. megolmDecryption_addMissingKeyEventIds env senderKey sessionId = Inr ()"
  show "result_of (processDecryptionResults env events errs Sync t s) = Inr ()"
    using nb ok
    by (simp add: processDecryptionResults_def Let_def case_prod_unfold proj_simps
        promise_all_await_result promise_all_await_state
        split: sum.splits)
qed


text \<open>
  C5, as the source has it. A Sync-sourced batch is written with no backup client
  configured, and the engine reports the error \<open>MEGOLM_NO_SESSION\<close> for an event of
  the batch (for which \<open>prepareDecryptAll\<close> recorded no error of its own). Then the event
  is in the errors map with that error, its event id is handed to
  \<open>addMissingKeyEventIds\<close> for its sender key and session id, the backup is not called
  and no detached task is started; and \<open>DecryptionChanges.write\<close> fires no "missing
  megolm session" notification: \<open>_processDecryptionResults\<close> returns at line 155 when no
  backup client is set. The notification is fired by \<open>_requestMissingSessionFromBackup\<close>
  when it is called without a backup client (last conjunct), which this path does not do.
\<close>

theorem C5_no_backup_no_notification:
  assumes nb: "\<not> sessionBackup s"
    and wr: "megolmDecryption_write env (megolmDecryptionPreparation changes) = Inr (rs, errs)"
    and src: "prep_source changes = Sync"
    and ev: "e \<in> set (prep_events changes)"
    and er: "errs (event_id e) = Some err"
    and co: "err_code err = Some ''MEGOLM_NO_SESSION''"
    and ex: "extraErrors changes (event_id e) = None"
    and am: "\<forall>senderKey sessionId. megolmDecryption_addMissingKeyEventIds env senderKey sessionId = Inr ()"
  shows "trace_of (DecryptionChanges_write env changes t s) =
      Megolm (ChangesWrite t)
      # map (\<lambda>(key, events). Megolm (AddMissingKeyEventIds (room_id env) (fst key) (snd key)
               (map event_id events) t))
          (groupEventsBySession
             (missing_session_events (mergeMap (extraErrors changes) errs) (prep_events changes)))
    \<and> result_of (DecryptionChanges_write env changes t s) =
        Inr \<lparr>results_map = rs, errors_map = mergeMap (extraErrors changes) errs\<rparr>
    \<and> mergeMap (extraErrors changes) errs (event_id e) = Some err
    \<and> (\<exists>ids. Megolm (AddMissingKeyEventIds (room_id env) (ev_sender_key e) (ev_session_id e) ids t)
              \<in> set (trace_of (DecryptionChanges_write env changes t s))
            \<and> event_id e \<in> set ids)
    \<and> filter is_BackupGetSession (trace_of (DecryptionChanges_write env changes t s)) = []
    \<and> filter is_Detached (trace_of (DecryptionChanges_write env changes t s)) = []
    \<and> NotifyMissingMegolmSession \<notin> set (trace_of (DecryptionChanges_write env changes t s))
    \<and> trace_of (requestMissingSessionFromBackup env senderKey sessionId s) =
        [Log (LogSet ''enabled'' (LBool False)), NotifyMissingMegolmSession]"
proof -
  let ?errors = "mergeMap (extraErrors changes) errs"
  let ?missing = "missing_session_events ?errors (prep_events changes)"
  let ?E = "\<lambda>(key, events). Megolm (AddMissingKeyEventIds (room_id env) (fst key) (snd key)
               (map event_id events) t)"
  have nb': "\<not> sessionBackup (s\<lparr>disposed := disposed s \<or> disposeDuring env (Megolm (ChangesWrite t))\<rparr>)"
    using nb by simp
  have tr: "trace_of (DecryptionChanges_write env changes t s) =
      Megolm (ChangesWrite t) # map ?E (groupEventsBySession ?missing)"
    using wr src processDecryptionResults_no_backup(1) [OF nb']
    by (simp add: DecryptionChanges_write_def Let_def proj_simps split: sum.splits)
  have res: "result_of (DecryptionChanges_write env changes t s) =
        Inr \<lparr>results_map = rs, errors_map = ?errors\<rparr>"
    using wr src processDecryptionResults_no_backup(2) [OF nb' am]
    by (simp add: DecryptionChanges_write_def Let_def proj_simps split: sum.splits)
  have me: "?errors (event_id e) = Some err"
    using er ex by (simp add: mergeMap_def map_add_def)
  have mem: "e \<in> set ?missing"
    using ev me co by (simp add: missing_session_events_def)
  let ?k = "(ev_sender_key e, ev_session_id e)"
  let ?g = "filter (\<lambda>x. (ev_sender_key x, ev_session_id x) = ?k) ?missing"
  have "(?k, ?g) \<in> set (groupEventsBySession ?missing)"
    using mem by (auto simp: groupEventsBySession_def groupBy_set image_iff)
  then have "?E (?k, ?g) \<in> ?E ` set (groupEventsBySession ?missing)"
    by (rule imageI)
  then have "?E (?k, ?g) \<in> set (map ?E (groupEventsBySession ?missing))"
    by (simp only: set_map)
  moreover have "event_id e \<in> set (map event_id ?g)"
    using mem by simp
  ultimately have add: "\<exists>ids. Megolm (AddMissingKeyEventIds (room_id env) (ev_sender_key e) (ev_session_id e) ids t)
              \<in> set (trace_of (DecryptionChanges_write env changes t s))
            \<and> event_id e \<in> set ids"
    unfolding tr by (intro exI [where x = "map event_id ?g"]) simp
  have f1: "filter is_BackupGetSession (trace_of (DecryptionChanges_write env changes t s)) = []"
    and f2: "filter is_Detached (trace_of (DecryptionChanges_write env changes t s)) = []"
    and f3: "NotifyMissingMegolmSession \<notin> set (trace_of (DecryptionChanges_write env changes t s))"
    unfolding tr by (auto simp: filter_empty_conv)
  have rq: "trace_of (requestMissingSessionFromBackup env senderKey sessionId s) =
        [Log (LogSet ''enabled'' (LBool False)), NotifyMissingMegolmSession]"
    using nb by (simp add: request_defs act_defs)
  show ?thesis using tr res me add f1 f2 f3 rq by blast
qed

theorem C5_no_backup_no_notification_witness:
  "\<not> sessionBackup s0
   \<and> megolmDecryption_write env_no_session (megolmDecryptionPreparation changes_m1) =
        Inr (Map.empty, [''$m1'' \<mapsto> no_session_error])
   \<and> prep_source changes_m1 = Sync
   \<and> megolm_event \<in> set (prep_events changes_m1)
   \<and> err_code no_session_error = Some ''MEGOLM_NO_SESSION''
   \<and> result_of (DecryptionChanges_write env_no_session changes_m1 (Txn 7) s0) =
        Inr \<lparr>results_map = Map.empty,
             errors_map = mergeMap (extraErrors changes_m1) [''$m1'' \<mapsto> no_session_error]\<rparr>
   \<and> mergeMap (extraErrors changes_m1) [''$m1'' \<mapsto> no_session_error]
         (event_id megolm_event) = Some no_session_error
   \<and> filter is_BackupGetSession
        (trace_of (DecryptionChanges_write env_no_session changes_m1 (Txn 7) s0)) = []
   \<and> NotifyMissingMegolmSession
        \<notin> set (trace_of (DecryptionChanges_write env_no_session changes_m1 (Txn 7) s0))"
proof -
  have h1: "\<not> sessionBackup s0"
    by (simp add: s0_def)
  have h2: "megolmDecryption_write env_no_session (megolmDecryptionPreparation changes_m1) =
      Inr (Map.empty, [''$m1'' \<mapsto> no_session_error])"
    by (simp add: env_no_session_def)
  have h3: "prep_source changes_m1 = Sync"
    and h4: "megolm_event \<in> set (prep_events changes_m1)"
    and h7: "extraErrors changes_m1 (event_id megolm_event) = None"
    by (simp_all add: changes_m1_def)
  have h5: "[''$m1'' \<mapsto> no_session_error] (event_id megolm_event) = Some no_session_error"
    by (simp add: megolm_event_def)
  have h6: "err_code no_session_error = Some ''MEGOLM_NO_SESSION''"
    by (simp add: no_session_error_def)
  have h8: "\<forall>senderKey sessionId.
      megolmDecryption_addMissingKeyEventIds env_no_session senderKey sessionId = Inr ()"
    by (simp add: env_no_session_def env0_def)
  show ?thesis
    using C5_no_backup_no_notification [OF h1 h2 h3 h4 h5 h6 h7 h8, of "Txn 7" None None]
      h1 h2 h3 h4 h6
    by blast
qed

text \<open>
  C5 as the claim states it fails: a Sync-sourced event with an unknown session id is
  written with no backup client configured. The event is in the errors map and its id is
  recorded, but the trace of \<open>DecryptionChanges.write\<close> has no "missing megolm session"
  notification.
\<close>

theorem C5_counterexample:
  "trace_of (DecryptionChanges_write env_no_session changes_m1 (Txn 7) s0) =
     [Megolm (ChangesWrite (Txn 7)),
      Megolm (AddMissingKeyEventIds ''!room:hs'' (Some ''KEY'') (Some ''sess1'') [''$m1''] (Txn 7))]
   \<and> NotifyMissingMegolmSession
        \<notin> set (trace_of (DecryptionChanges_write env_no_session changes_m1 (Txn 7) s0))"
  by (simp add: decrypt_defs act_defs groupEventsBySession_def groupBy_def env_no_session_def
      env0_def changes_m1_def megolm_event_def no_session_error_def s0_def Let_def)

end
